theory Spec2Isabelle
  imports
    Complex_Main
    "HOL-Library.Char_ord"
    "HOL-Library.List_Lexorder"
    "HOL-Library.Product_Lexorder"
    "HOL-Library.Sublist"
    "HOL-Library.Multiset"
begin

section \<open>The EventKit helper (native/RemindersEventKitHelper.swift)\<close>

subsection \<open>Data model\<close>

text \<open>
  A Foundation \<open>Date\<close> is a point in time. The helper only compares dates, hands them to the
  calendar and prints them, so a date is modelled by its number of milliseconds since the
  Unix epoch.
\<close>

type_synonym date = int

text \<open>\<open>Date.distantPast\<close>, 0001-01-01 00:00:00 +0000 in Foundation's calendar.\<close>

definition distantPast :: date where
  "distantPast = - 62135769600000"

text \<open>\<open>HelperError.message\<close> is the helper's own error; any other thrown \<open>Error\<close> (from
  EventKit) reaches the top level with its \<open>localizedDescription\<close>.\<close>

datatype HelperError = message string | foreignError string

text \<open>Foundation's \<open>DateComponents\<close>, restricted to the six units the helper requests.\<close>

record DateComponents =
  year :: "int option"
  month :: "int option"
  day :: "int option"
  hour :: "int option"
  minute :: "int option"
  second :: "int option"

text \<open>An \<open>EKAlarm\<close> is absolute (it carries a date) or relative to the due date (an offset);
  \<open>absoluteDate\<close> is \<open>nil\<close> for a relative alarm.\<close>

datatype EKAlarm = EKAlarm_absoluteDate date | EKAlarm_relativeOffset int

fun absoluteDate :: "EKAlarm \<Rightarrow> date option" where
  "absoluteDate (EKAlarm_absoluteDate d) = Some d"
| "absoluteDate (EKAlarm_relativeOffset _) = None"

record EKCalendar =
  calendarIdentifier :: string
  calendarTitle :: string

record EKReminder =
  calendarItemIdentifier :: string
  title :: string
  notesText :: "string option"
  isCompleted :: bool
  completionDate :: "date option"
  dueDateComponents :: "DateComponents option"
  alarms :: "EKAlarm list option"
  priority :: int
  creationDate :: "date option"
  lastModifiedDate :: "date option"
  calendar :: EKCalendar

text \<open>
  The event store as the helper sees it: the reminder calendars and the reminders, each in
  the order in which EventKit returns them.
\<close>

record EKEventStore =
  calendars :: "EKCalendar list"
  reminders :: "EKReminder list"

text \<open>
  What the helper takes from Foundation and EventKit and does not implement itself: the two
  ISO 8601 formatters, the all-day formatter, the current calendar, the clock, the
  outcome of the store's blocking calls, the identifier of a new calendar item, what
  \<open>ensureAccess\<close> throws (nothing when access is granted), and the description of a
  decoding error.
\<close>

record Foundation =
  isoWithFractionalSeconds_date :: "string \<Rightarrow> date option"
  isoWithoutFractionalSeconds_date :: "string \<Rightarrow> date option"
  isoWithFractionalSeconds_string :: "date \<Rightarrow> string"
  allDayDateFormatter_date :: "string \<Rightarrow> date option"
  calendar_dateComponents :: "date \<Rightarrow> int \<times> int \<times> int \<times> int \<times> int \<times> int"
  calendar_date :: "DateComponents \<Rightarrow> date option"
  currentDate :: date
  fetchTimedOut :: bool
  saveError :: "EKReminder \<Rightarrow> string option"
  removeError :: "EKReminder \<Rightarrow> string option"
  newCalendarItemIdentifier :: string
  ensureAccessError :: "HelperError option"
  decodingErrorDescription :: string

subsection \<open>Dates\<close>

definition parseISODate :: "Foundation \<Rightarrow> string \<Rightarrow> date option" where
  "parseISODate F v =
     (case isoWithFractionalSeconds_date F v of
        Some parsed \<Rightarrow> Some parsed
      | None \<Rightarrow>
          (case isoWithoutFractionalSeconds_date F v of
             Some parsed \<Rightarrow> Some parsed
           | None \<Rightarrow> None))"

definition isoString :: "Foundation \<Rightarrow> date option \<Rightarrow> string option" where
  "isoString F v = (case v of None \<Rightarrow> None | Some d \<Rightarrow> Some (isoWithFractionalSeconds_string F d))"

definition dateComponentsFromISO :: "Foundation \<Rightarrow> string \<Rightarrow> HelperError + DateComponents" where
  "dateComponentsFromISO F v =
     (case parseISODate F v of
        None \<Rightarrow> Inl (message (''Invalid ISO 8601 date: '' @ v))
      | Some d \<Rightarrow>
          (case calendar_dateComponents F d of
             (y, mo, dd, h, mi, s) \<Rightarrow>
               Inr \<lparr>year = Some y, month = Some mo, day = Some dd,
                    hour = Some h, minute = Some mi, second = Some s\<rparr>))"

definition dateComponentsFromAllDay :: "Foundation \<Rightarrow> string \<Rightarrow> HelperError + DateComponents" where
  "dateComponentsFromAllDay F v =
     (case allDayDateFormatter_date F v of
        None \<Rightarrow> Inl (message (''Invalid all-day date format (expected YYYY-MM-DD): '' @ v))
      | Some d \<Rightarrow>
          (case calendar_dateComponents F d of
             (y, mo, dd, h, mi, s) \<Rightarrow>
               Inr \<lparr>year = Some y, month = Some mo, day = Some dd,
                    hour = None, minute = None, second = None\<rparr>))"

definition dueDate :: "Foundation \<Rightarrow> EKReminder \<Rightarrow> date option" where
  "dueDate F reminder =
     (case dueDateComponents reminder of
        None \<Rightarrow> None
      | Some components \<Rightarrow> calendar_date F components)"

definition isAllDayDueDate :: "EKReminder \<Rightarrow> bool" where
  "isAllDayDueDate reminder =
     (case dueDateComponents reminder of
        None \<Rightarrow> False
      | Some components \<Rightarrow>
          hour components = None \<and> minute components = None \<and> second components = None)"

subsection \<open>Sorting\<close>

text \<open>
  Modelled from the spec: \<open>String.localizedCaseInsensitiveCompare\<close> belongs to Foundation
  and is not part of the sources. The specification describes it as case-insensitive
  lexicographic order; it is modelled as the lexicographic comparison of the titles with
  the letters A to Z folded to lower case.
\<close>

datatype ComparisonResult = orderedAscending | orderedSame | orderedDescending

definition lowercase :: "char \<Rightarrow> char" where
  "lowercase c =
     (if CHR ''A'' \<le> c \<and> c \<le> CHR ''Z'' then char_of (of_char c + (32::nat)) else c)"

definition localizedCaseInsensitiveCompare :: "string \<Rightarrow> string \<Rightarrow> ComparisonResult" where
  "localizedCaseInsensitiveCompare a b =
     (if map lowercase a < map lowercase b then orderedAscending
      else if map lowercase a = map lowercase b then orderedSame
      else orderedDescending)"

text \<open>The timestamp of the second sort key:
  \<open>lastModifiedDate ?? creationDate ?? Date.distantPast\<close>.\<close>

definition modStamp :: "EKReminder \<Rightarrow> date" where
  "modStamp r =
     (case lastModifiedDate r of
        Some d \<Rightarrow> d
      | None \<Rightarrow> (case creationDate r of Some d \<Rightarrow> d | None \<Rightarrow> distantPast))"

text \<open>The part of the closure after the \<open>switch\<close>, reached by \<open>break\<close> and by equal due
  dates.\<close>

definition afterDue :: "EKReminder \<Rightarrow> EKReminder \<Rightarrow> bool" where
  "afterDue lhs rhs =
     (let lhsMod = modStamp lhs; rhsMod = modStamp rhs in
      if lhsMod \<noteq> rhsMod then lhsMod > rhsMod
      else localizedCaseInsensitiveCompare (title lhs) (title rhs) = orderedAscending)"

text \<open>The closure passed to \<open>sorted\<close> in \<open>sortReminders\<close>.\<close>

definition areInIncreasingOrder :: "Foundation \<Rightarrow> EKReminder \<Rightarrow> EKReminder \<Rightarrow> bool" where
  "areInIncreasingOrder F lhs rhs =
     (case (dueDate F lhs, dueDate F rhs) of
        (Some l, Some r) \<Rightarrow> if l \<noteq> r then l < r else afterDue lhs rhs
      | (None, Some _) \<Rightarrow> False
      | (Some _, None) \<Rightarrow> True
      | (None, None) \<Rightarrow> afterDue lhs rhs)"

text \<open>
  Swift's \<open>sorted(by:)\<close> is a stable sort. It is modelled by the stable insertion sort: an
  element is inserted before the first element that is not strictly smaller than it, so
  elements that the closure does not order keep their relative order.
\<close>

fun insertBy :: "('a \<Rightarrow> 'a \<Rightarrow> bool) \<Rightarrow> 'a \<Rightarrow> 'a list \<Rightarrow> 'a list" where
  "insertBy lt x [] = [x]"
| "insertBy lt x (y # ys) = (if lt y x then y # insertBy lt x ys else x # y # ys)"

definition sortedBy :: "('a \<Rightarrow> 'a \<Rightarrow> bool) \<Rightarrow> 'a list \<Rightarrow> 'a list" where
  "sortedBy lt xs = foldr (insertBy lt) xs []"

definition sortReminders :: "Foundation \<Rightarrow> EKReminder list \<Rightarrow> EKReminder list" where
  "sortReminders F rs = sortedBy (areInIncreasingOrder F) rs"

text \<open>
  The canonical sort order in the specification's words, as a key compared
  lexicographically: first the due date (reminders with a due date before those without,
  ascending by due timestamp), then the last-modified timestamp descending (the creation
  timestamp where there is none), then the case-folded name.
\<close>

definition canonicalKey :: "Foundation \<Rightarrow> EKReminder \<Rightarrow> (nat \<times> date) \<times> date \<times> string" where
  "canonicalKey F r =
     ((case dueDate F r of Some d \<Rightarrow> (0, d) | None \<Rightarrow> (1, 0)),
      - modStamp r,
      map lowercase (title r))"

subsection \<open>Wire records\<close>

record ReminderRecord =
  rec_id :: string
  rec_name :: string
  rec_body :: "string option"
  rec_completed :: bool
  rec_completionDate :: "string option"
  rec_dueDate :: "string option"
  rec_allDayDueDate :: "string option"
  rec_remindMeDate :: "string option"
  rec_priority :: int
  rec_creationDate :: "string option"
  rec_modificationDate :: "string option"
  rec_listName :: string

record ListRemindersResult =
  total :: int
  resultReminders :: "ReminderRecord list"

text \<open>The payloads. Their \<open>Int\<close> fields are Swift integers; the helper only compares them and
  takes maxima, so nothing wraps around and they are modelled as integers.\<close>

record ListRemindersPayload =
  lrp_listName :: "string option"
  lrp_completed :: "bool option"
  lrp_limit :: "int option"
  lrp_offset :: "int option"

record CountRemindersPayload =
  crp_listName :: "string option"
  crp_completed :: "bool option"

record CreateReminderPayload =
  cp_name :: string
  cp_listName :: string
  cp_body :: "string option"
  cp_dueDate :: "string option"
  cp_allDayDueDate :: "string option"
  cp_remindMeDate :: "string option"
  cp_priority :: "int option"

record UpdateReminderPayload =
  up_listName :: string
  up_reminderName :: string
  up_newName :: "string option"
  up_body :: "string option"
  up_dueDate :: "string option"
  up_allDayDueDate :: "string option"
  up_remindMeDate :: "string option"
  up_priority :: "int option"
  up_completed :: "bool option"

record DeleteReminderPayload =
  dp_listName :: string
  dp_reminderName :: string

datatype EmptyResult = EmptyResult

subsection \<open>Reading\<close>

definition remindMeDate :: "EKReminder \<Rightarrow> date option" where
  "remindMeDate reminder =
     (case alarms reminder of
        None \<Rightarrow> None
      | Some as \<Rightarrow>
          (case sort (List.map_filter absoluteDate as) of
             [] \<Rightarrow> None
           | d # _ \<Rightarrow> Some d))"

definition mapReminder :: "Foundation \<Rightarrow> EKReminder \<Rightarrow> ReminderRecord" where
  "mapReminder F reminder =
     (let due = dueDate F reminder;
          allDayDue = (if isAllDayDueDate reminder then due else None)
      in \<lparr>rec_id = calendarItemIdentifier reminder,
          rec_name = title reminder,
          rec_body = notesText reminder,
          rec_completed = isCompleted reminder,
          rec_completionDate = isoString F (completionDate reminder),
          rec_dueDate = isoString F due,
          rec_allDayDueDate = isoString F allDayDue,
          rec_remindMeDate = isoString F (remindMeDate reminder),
          rec_priority = priority reminder,
          rec_creationDate = isoString F (creationDate reminder),
          rec_modificationDate = isoString F (lastModifiedDate reminder),
          rec_listName = calendarTitle (calendar reminder)\<rparr>)"

definition allReminderCalendars :: "EKEventStore \<Rightarrow> EKCalendar list" where
  "allReminderCalendars store = calendars store"

definition calendarByName :: "string \<Rightarrow> EKCalendar list \<Rightarrow> EKCalendar option" where
  "calendarByName name cals = find (\<lambda>c. calendarTitle c = name) cals"

text \<open>\<open>fetchReminders\<close> waits up to 55 seconds for EventKit; whether the wait times out is
  given by the platform. The predicate selects the reminders of the given calendars, or
  all reminders for \<open>nil\<close>.\<close>

definition fetchReminders ::
  "Foundation \<Rightarrow> EKEventStore \<Rightarrow> EKCalendar list option \<Rightarrow> HelperError + EKReminder list" where
  "fetchReminders F store cals =
     (if fetchTimedOut F then Inl (message ''Timed out while fetching reminders from EventKit'')
      else Inr (case cals of
                  None \<Rightarrow> reminders store
                | Some cs \<Rightarrow> filter (\<lambda>r. calendar r \<in> set cs) (reminders store)))"

text \<open>String interpolation between single quotes, as in \<open>"List '\(listName)' not found"\<close>.\<close>

definition quoted :: "string \<Rightarrow> string" where
  "quoted s = CHR 0x27 # s @ [CHR 0x27]"

definition selectCalendars ::
  "string option \<Rightarrow> EKCalendar list \<Rightarrow> HelperError + EKCalendar list option" where
  "selectCalendars listName allCalendars =
     (case listName of
        None \<Rightarrow> Inr None
      | Some n \<Rightarrow>
          (case calendarByName n allCalendars of
             None \<Rightarrow> Inl (message (''List '' @ quoted n @ '' not found''))
           | Some c \<Rightarrow> Inr (Some [c])))"

text \<open>The filter on the completion flag, shared by listing and counting.\<close>

definition filterCompleted :: "bool option \<Rightarrow> EKReminder list \<Rightarrow> EKReminder list" where
  "filterCompleted completed rs =
     (case completed of
        None \<Rightarrow> rs
      | Some c \<Rightarrow> filter (\<lambda>r. isCompleted r = c) rs)"

definition operationListReminders ::
  "Foundation \<Rightarrow> EKEventStore \<Rightarrow> ListRemindersPayload \<Rightarrow> HelperError + ListRemindersResult" where
  "operationListReminders F store payload =
     (case selectCalendars (lrp_listName payload) (allReminderCalendars store) of
        Inl e \<Rightarrow> Inl e
      | Inr selectedCalendars \<Rightarrow>
          (case fetchReminders F store selectedCalendars of
             Inl e \<Rightarrow> Inl e
           | Inr fetched \<Rightarrow>
               (let rs = sortReminders F (filterCompleted (lrp_completed payload) fetched);
                    tot = int (length rs);
                    safeOffset = max 0 (case lrp_offset payload of None \<Rightarrow> 0 | Some offset \<Rightarrow> offset);
                    safeLimit = max 1 (case lrp_limit payload of None \<Rightarrow> tot | Some limit \<Rightarrow> limit);
                    paged = take (nat safeLimit) (drop (nat safeOffset) rs)
                in Inr \<lparr>total = tot, resultReminders = map (mapReminder F) paged\<rparr>)))"

definition operationCountReminders ::
  "Foundation \<Rightarrow> EKEventStore \<Rightarrow> CountRemindersPayload \<Rightarrow> HelperError + int" where
  "operationCountReminders F store payload =
     (case selectCalendars (crp_listName payload) (allReminderCalendars store) of
        Inl e \<Rightarrow> Inl e
      | Inr selectedCalendars \<Rightarrow>
          (case fetchReminders F store selectedCalendars of
             Inl e \<Rightarrow> Inl e
           | Inr fetched \<Rightarrow>
               Inr (int (length (filterCompleted (crp_completed payload) fetched)))))"

subsection \<open>Writing\<close>

text \<open>
  The three date assignments are the same statements in \<open>operationCreateReminder\<close> and
  \<open>operationUpdateReminder\<close>; each is applied only when its payload field is present and
  throws when the string does not parse.
\<close>

definition assignDueDate :: "Foundation \<Rightarrow> string option \<Rightarrow> EKReminder \<Rightarrow> HelperError + EKReminder" where
  "assignDueDate F v reminder =
     (case v of
        None \<Rightarrow> Inr reminder
      | Some s \<Rightarrow>
          (case dateComponentsFromISO F s of
             Inl e \<Rightarrow> Inl e
           | Inr c \<Rightarrow> Inr (reminder\<lparr>dueDateComponents := Some c\<rparr>)))"

definition assignAllDayDueDate :: "Foundation \<Rightarrow> string option \<Rightarrow> EKReminder \<Rightarrow> HelperError + EKReminder" where
  "assignAllDayDueDate F v reminder =
     (case v of
        None \<Rightarrow> Inr reminder
      | Some s \<Rightarrow>
          (case dateComponentsFromAllDay F s of
             Inl e \<Rightarrow> Inl e
           | Inr c \<Rightarrow> Inr (reminder\<lparr>dueDateComponents := Some c\<rparr>)))"

definition assignRemindMeDate :: "Foundation \<Rightarrow> string option \<Rightarrow> EKReminder \<Rightarrow> HelperError + EKReminder" where
  "assignRemindMeDate F v reminder =
     (case v of
        None \<Rightarrow> Inr reminder
      | Some s \<Rightarrow>
          (case parseISODate F s of
             None \<Rightarrow> Inl (message (''Invalid ISO 8601 remindMeDate: '' @ s))
           | Some absolute \<Rightarrow> Inr (reminder\<lparr>alarms := Some [EKAlarm_absoluteDate absolute]\<rparr>)))"

text \<open>
  \<open>CharacterSet.whitespacesAndNewlines\<close>: the Unicode space separators, the tabulator, the
  line breaks U+000A to U+000D and U+0085. A character of the model is a code point below
  256, so the members of the set are U+0009 to U+000D, U+0020, U+0085 and U+00A0.
\<close>

definition whitespacesAndNewlines :: "char \<Rightarrow> bool" where
  "whitespacesAndNewlines c =
     (c \<in> set [CHR 0x20, CHR 0x09, CHR 0x0A, CHR 0x0B, CHR 0x0C, CHR 0x0D, CHR 0x85, CHR 0xA0])"

definition trimmingCharacters :: "(char \<Rightarrow> bool) \<Rightarrow> string \<Rightarrow> string" where
  "trimmingCharacters cs s = rev (dropWhile cs (rev (dropWhile cs s)))"

text \<open>A reminder as \<open>EKReminder(eventStore:)\<close> creates it, before any assignment.\<close>

definition newReminder :: "Foundation \<Rightarrow> EKReminder" where
  "newReminder F =
     \<lparr>calendarItemIdentifier = newCalendarItemIdentifier F,
      title = [],
      notesText = None,
      isCompleted = False,
      completionDate = None,
      dueDateComponents = None,
      alarms = None,
      priority = 0,
      creationDate = None,
      lastModifiedDate = None,
      calendar = \<lparr>calendarIdentifier = [], calendarTitle = []\<rparr>\<rparr>"

text \<open>Lines 370 to 395 of the helper: the reminder that \<open>operationCreateReminder\<close> hands to
  \<open>store.save\<close>.\<close>

definition createdReminder ::
  "Foundation \<Rightarrow> EKCalendar \<Rightarrow> CreateReminderPayload \<Rightarrow> HelperError + EKReminder" where
  "createdReminder F cal payload =
     (let r0 = (newReminder F)\<lparr>calendar := cal, title := cp_name payload\<rparr>;
          r1 = (case cp_body payload of None \<Rightarrow> r0 | Some b \<Rightarrow> r0\<lparr>notesText := Some b\<rparr>)
      in case assignDueDate F (cp_dueDate payload) r1 of
           Inl e \<Rightarrow> Inl e
         | Inr r2 \<Rightarrow>
             (case assignAllDayDueDate F (cp_allDayDueDate payload) r2 of
                Inl e \<Rightarrow> Inl e
              | Inr r3 \<Rightarrow>
                  (case assignRemindMeDate F (cp_remindMeDate payload) r3 of
                     Inl e \<Rightarrow> Inl e
                   | Inr r4 \<Rightarrow>
                       Inr (case cp_priority payload of
                              None \<Rightarrow> r4
                            | Some p \<Rightarrow> r4\<lparr>priority := p\<rparr>))))"

text \<open>
  \<open>store.save(reminder, commit: true)\<close> either throws (an EventKit error) or commits the
  object as the helper left it; a new reminder is added after the existing ones. The
  bookkeeping EventKit does on its own at a save is outside the helper and not modelled.
\<close>

definition operationCreateReminder ::
  "Foundation \<Rightarrow> EKEventStore \<Rightarrow> CreateReminderPayload \<Rightarrow> (HelperError + string) \<times> EKEventStore" where
  "operationCreateReminder F store payload =
     (case calendarByName (cp_listName payload) (allReminderCalendars store) of
        None \<Rightarrow> (Inl (message (''List '' @ quoted (cp_listName payload) @ '' not found'')), store)
      | Some cal \<Rightarrow>
          if trimmingCharacters whitespacesAndNewlines (cp_name payload) = []
          then (Inl (message ''Reminder name cannot be empty''), store)
          else
            (case createdReminder F cal payload of
               Inl e \<Rightarrow> (Inl e, store)
             | Inr reminder \<Rightarrow>
                 (case saveError F reminder of
                    Some e \<Rightarrow> (Inl (foreignError e), store)
                  | None \<Rightarrow>
                      (Inr (calendarItemIdentifier reminder),
                       store\<lparr>reminders := reminders store @ [reminder]\<rparr>))))"

definition locateReminderByName ::
  "Foundation \<Rightarrow> EKEventStore \<Rightarrow> string \<Rightarrow> string \<Rightarrow> HelperError + EKReminder" where
  "locateReminderByName F store listName reminderName =
     (case calendarByName listName (allReminderCalendars store) of
        None \<Rightarrow> Inl (message (''List '' @ quoted listName @ '' not found''))
      | Some cal \<Rightarrow>
          (case fetchReminders F store (Some [cal]) of
             Inl e \<Rightarrow> Inl e
           | Inr rs \<Rightarrow>
               (case find (\<lambda>r. title r = reminderName) rs of
                  None \<Rightarrow>
                    Inl (message (''Reminder '' @ quoted reminderName @ '' not found in list ''
                                  @ quoted listName))
                | Some reminder \<Rightarrow> Inr reminder)))"

text \<open>Lines 428 to 458 of the helper: the assignments of \<open>operationUpdateReminder\<close> to the
  located reminder.\<close>

definition updatedReminder ::
  "Foundation \<Rightarrow> UpdateReminderPayload \<Rightarrow> EKReminder \<Rightarrow> HelperError + EKReminder" where
  "updatedReminder F payload reminder =
     (let r0 = (case up_newName payload of None \<Rightarrow> reminder | Some n \<Rightarrow> reminder\<lparr>title := n\<rparr>);
          r1 = (case up_body payload of None \<Rightarrow> r0 | Some b \<Rightarrow> r0\<lparr>notesText := Some b\<rparr>)
      in case assignDueDate F (up_dueDate payload) r1 of
           Inl e \<Rightarrow> Inl e
         | Inr r2 \<Rightarrow>
             (case assignAllDayDueDate F (up_allDayDueDate payload) r2 of
                Inl e \<Rightarrow> Inl e
              | Inr r3 \<Rightarrow>
                  (case assignRemindMeDate F (up_remindMeDate payload) r3 of
                     Inl e \<Rightarrow> Inl e
                   | Inr r4 \<Rightarrow>
                       (let r5 = (case up_priority payload of
                                    None \<Rightarrow> r4
                                  | Some p \<Rightarrow> r4\<lparr>priority := p\<rparr>)
                        in Inr (case up_completed payload of
                                  None \<Rightarrow> r5
                                | Some c \<Rightarrow>
                                    r5\<lparr>isCompleted := c,
                                       completionDate :=
                                         (if c then Some (currentDate F) else None)\<rparr>)))))"

text \<open>
  The located reminder is an object of the store. Objects are modelled by their values:
  \<open>locateReminderByName\<close> returns the first reminder of the store with the given list and
  title, so the first element of the store equal to it is that object.
\<close>

fun replaceFirst :: "'a \<Rightarrow> 'a \<Rightarrow> 'a list \<Rightarrow> 'a list" where
  "replaceFirst old new [] = []"
| "replaceFirst old new (x # xs) = (if x = old then new # xs else x # replaceFirst old new xs)"

definition operationUpdateReminder ::
  "Foundation \<Rightarrow> EKEventStore \<Rightarrow> UpdateReminderPayload \<Rightarrow> (HelperError + EmptyResult) \<times> EKEventStore" where
  "operationUpdateReminder F store payload =
     (if up_newName payload = None \<and> up_body payload = None \<and> up_dueDate payload = None
         \<and> up_allDayDueDate payload = None \<and> up_remindMeDate payload = None
         \<and> up_priority payload = None \<and> up_completed payload = None
      then (Inl (message ''No updates provided''), store)
      else
        (case locateReminderByName F store (up_listName payload) (up_reminderName payload) of
           Inl e \<Rightarrow> (Inl e, store)
         | Inr reminder \<Rightarrow>
             (case updatedReminder F payload reminder of
                Inl e \<Rightarrow> (Inl e, store)
              | Inr reminder' \<Rightarrow>
                  (case saveError F reminder' of
                     Some e \<Rightarrow> (Inl (foreignError e), store)
                   | None \<Rightarrow>
                       (Inr EmptyResult,
                        store\<lparr>reminders := replaceFirst reminder reminder' (reminders store)\<rparr>)))))"

definition operationDeleteReminder ::
  "Foundation \<Rightarrow> EKEventStore \<Rightarrow> DeleteReminderPayload \<Rightarrow> (HelperError + EmptyResult) \<times> EKEventStore" where
  "operationDeleteReminder F store payload =
     (case locateReminderByName F store (dp_listName payload) (dp_reminderName payload) of
        Inl e \<Rightarrow> (Inl e, store)
      | Inr reminder \<Rightarrow>
          (case removeError F reminder of
             Some e \<Rightarrow> (Inl (foreignError e), store)
           | None \<Rightarrow>
               (Inr EmptyResult, store\<lparr>reminders := remove1 reminder (reminders store)\<rparr>)))"

section \<open>The EventKit service (src/services/eventkit.ts)\<close>

subsection \<open>JavaScript values\<close>

text \<open>
  The values \<open>JSON.parse\<close> can return. A number is the value of a double (\<open>JSON.parse\<close>
  yields no NaN); an object is the list of its own properties. \<open>undefined\<close> is \<open>None\<close> of
  \<open>json option\<close>.
\<close>

datatype json =
    JNull
  | JBool bool
  | JNumber rat
  | JString string
  | JArray "json list"
  | JObject "(string \<times> json) list"

text \<open>The error objects that reach \<open>runHelper\<close>: every one has a message, and the rejection
  of \<open>execFile\<close> also carries what the child process printed.\<close>

record JSError =
  errMessage :: string
  errStdout :: "string option"
  errStderr :: "string option"

definition newError :: "string \<Rightarrow> JSError" where
  "newError msg = \<lparr>errMessage = msg, errStdout = None, errStderr = None\<rparr>"

text \<open>What the service takes from the JavaScript runtime: the JSON parser (\<open>None\<close> for a
  \<open>SyntaxError\<close>), the conversion of a value that is not a string to a string, the text of
  the \<open>TypeError\<close> for a property read on \<open>null\<close>, the date parser (\<open>None\<close> for an invalid
  date) and the clock.\<close>

record Node =
  JSON_parse :: "string \<Rightarrow> json option"
  String_of :: "json \<Rightarrow> string"
  nullPropertyMessage :: "string \<Rightarrow> string"
  Date_parse :: "string \<Rightarrow> date option"
  Date_now :: date

text \<open>Reading the property \<open>k\<close> of a parsed value: a \<open>TypeError\<close> on \<open>null\<close>, the own
  property of an object, and \<open>undefined\<close> on everything else (no prototype has a property
  named \<open>ok\<close>, \<open>error\<close> or \<open>result\<close>).\<close>

definition property :: "Node \<Rightarrow> json \<Rightarrow> string \<Rightarrow> JSError + json option" where
  "property N v k =
     (case v of
        JNull \<Rightarrow> Inl (newError (nullPropertyMessage N k))
      | JObject kvs \<Rightarrow> Inr (map_of kvs k)
      | _ \<Rightarrow> Inr None)"

definition truthy :: "json option \<Rightarrow> bool" where
  "truthy v =
     (case v of
        None \<Rightarrow> False
      | Some JNull \<Rightarrow> False
      | Some (JBool b) \<Rightarrow> b
      | Some (JNumber n) \<Rightarrow> n \<noteq> 0
      | Some (JString s) \<Rightarrow> s \<noteq> []
      | Some (JArray _) \<Rightarrow> True
      | Some (JObject _) \<Rightarrow> True)"

text \<open>The message of \<open>new Error(v)\<close>.\<close>

definition messageOf :: "Node \<Rightarrow> json \<Rightarrow> string" where
  "messageOf N v = (case v of JString s \<Rightarrow> s | _ \<Rightarrow> String_of N v)"

text \<open>
  \<open>String.prototype.trim\<close> removes white space and line terminators. A character of the
  model is a code unit below 256; of these the tabulator, the line feed, the vertical
  tabulator, the form feed, the carriage return, the space and the no-break space U+00A0
  are removed.
\<close>

definition jsWhiteSpace :: "char \<Rightarrow> bool" where
  "jsWhiteSpace c =
     (c \<in> set [CHR 0x20, CHR 0x09, CHR 0x0A, CHR 0x0B, CHR 0x0C, CHR 0x0D, CHR 0xA0])"

definition trim :: "string \<Rightarrow> string" where
  "trim s = rev (dropWhile jsWhiteSpace (rev (dropWhile jsWhiteSpace s)))"

subsection \<open>The envelope codec\<close>

definition parseEnvelope :: "Node \<Rightarrow> string \<Rightarrow> string \<Rightarrow> JSError + json option" where
  "parseEnvelope N stdout op =
     (let raw = trim stdout in
      if raw = []
      then Inl (newError (''EventKit helper returned empty response for operation '' @ quoted op))
      else
        (case JSON_parse N raw of
           None \<Rightarrow>
             Inl (newError (''Failed to parse EventKit helper response for '' @ quoted op
                            @ '': '' @ raw))
         | Some parsed \<Rightarrow>
             (case property N parsed ''ok'' of
                Inl e \<Rightarrow> Inl e
              | Inr ok \<Rightarrow>
                  if \<not> truthy ok
                  then
                    (case property N parsed ''error'' of
                       Inl e \<Rightarrow> Inl e
                     | Inr err \<Rightarrow>
                         Inl (newError
                               (case err of
                                  None \<Rightarrow> ''EventKit helper failed for operation '' @ quoted op
                                | Some v \<Rightarrow>
                                    if truthy err then messageOf N v
                                    else ''EventKit helper failed for operation '' @ quoted op)))
                  else property N parsed ''result'')))"

text \<open>The outcome of \<open>execFileAsync\<close>: the standard output of a process that exited with
  status 0, or a rejection.\<close>

datatype ExecOutcome = Fulfilled string | Rejected JSError

text \<open>
  \<open>runHelper\<close> after \<open>ensureHelperBuilt\<close>, for a given outcome of the process. The call of
  \<open>parseEnvelope\<close> on the standard output of a successful process stands inside the \<open>try\<close>
  block, so what it throws is handled by the \<open>catch\<close> clause like a rejection.
\<close>

text \<open>\<open>err.stderr?.trim() || err.message\<close>.\<close>

definition failureDetails :: "JSError \<Rightarrow> string" where
  "failureDetails err =
     (case errStderr err of
        None \<Rightarrow> errMessage err
      | Some se \<Rightarrow> if trim se \<noteq> [] then trim se else errMessage err)"

definition runHelper :: "Node \<Rightarrow> string \<Rightarrow> ExecOutcome \<Rightarrow> JSError + json option" where
  "runHelper N operation outcome =
     (case (case outcome of
              Fulfilled stdout \<Rightarrow> parseEnvelope N stdout operation
            | Rejected e \<Rightarrow> Inl e) of
        Inr result \<Rightarrow> Inr result
      | Inl err \<Rightarrow>
          if (case errStdout err of None \<Rightarrow> False | Some out \<Rightarrow> trim out \<noteq> [])
          then
            (case errStdout err of
               None \<Rightarrow>
                 Inl (newError (''EventKit operation '' @ quoted operation @ '' failed: ''
                                @ failureDetails err))
             | Some out \<Rightarrow>
                 (case parseEnvelope N out operation of
                    Inr result \<Rightarrow> Inr result
                  | Inl parseErr \<Rightarrow> Inl (newError (errMessage parseErr))))
          else
            Inl (newError (''EventKit operation '' @ quoted operation @ '' failed: ''
                           @ failureDetails err)))"

subsection \<open>The normalizer\<close>

text \<open>A reminder as the helper's JSON carries it (interface \<open>HelperReminder\<close>); a property
  the helper left out is \<open>undefined\<close>.\<close>

record HelperReminder =
  hr_id :: string
  hr_name :: string
  hr_body :: "string option"
  hr_completed :: bool
  hr_completionDate :: "string option"
  hr_dueDate :: "string option"
  hr_allDayDueDate :: "string option"
  hr_remindMeDate :: "string option"
  hr_priority :: "int option"
  hr_creationDate :: "string option"
  hr_modificationDate :: "string option"
  hr_listName :: string

text \<open>The canonical reminder (interface \<open>Reminder\<close> of src/types.ts).\<close>

record Reminder =
  r_id :: string
  r_name :: string
  r_body :: "string option"
  r_completed :: bool
  r_completionDate :: "date option"
  r_dueDate :: "date option"
  r_allDayDueDate :: "date option"
  r_remindMeDate :: "date option"
  r_priority :: int
  r_creationDate :: date
  r_modificationDate :: date
  r_listName :: string

definition parseDate :: "Node \<Rightarrow> string option \<Rightarrow> date option" where
  "parseDate N v =
     (case v of
        None \<Rightarrow> None
      | Some s \<Rightarrow> if s = [] then None else Date_parse N s)"

text \<open>\<open>mapReminder\<close> of the service. Both \<open>new Date()\<close> read the clock of the platform.\<close>

definition mapReminderService :: "Node \<Rightarrow> HelperReminder \<Rightarrow> Reminder" where
  "mapReminderService N reminder =
     \<lparr>r_id = hr_id reminder,
      r_name = hr_name reminder,
      r_body = (case hr_body reminder of
                  None \<Rightarrow> None
                | Some b \<Rightarrow> if b = [] then None else Some b),
      r_completed = hr_completed reminder,
      r_completionDate = parseDate N (hr_completionDate reminder),
      r_dueDate = parseDate N (hr_dueDate reminder),
      r_allDayDueDate = parseDate N (hr_allDayDueDate reminder),
      r_remindMeDate = parseDate N (hr_remindMeDate reminder),
      r_priority = (case hr_priority reminder of None \<Rightarrow> 0 | Some p \<Rightarrow> p),
      r_creationDate = (case parseDate N (hr_creationDate reminder) of
                          None \<Rightarrow> Date_now N
                        | Some d \<Rightarrow> d),
      r_modificationDate = (case parseDate N (hr_modificationDate reminder) of
                              None \<Rightarrow> Date_now N
                            | Some d \<Rightarrow> d),
      r_listName = hr_listName reminder\<rparr>"

subsection \<open>The helper process behind \<open>runHelper\<close>\<close>

text \<open>
  \<open>run\<close> of the helper for the operation \<open>listReminders\<close>: \<open>ensureAccess\<close>, then the payload
  is decoded (\<open>JSONDecoder\<close> throws for a number that is no 64-bit \<open>Int\<close>), then the
  operation runs.
\<close>

definition fitsInt :: "int \<Rightarrow> bool" where
  "fitsInt i = (- (2 ^ 63) \<le> i \<and> i < 2 ^ 63)"

definition run_listReminders ::
  "Foundation \<Rightarrow> EKEventStore \<Rightarrow> ListRemindersPayload \<Rightarrow> HelperError + ListRemindersResult" where
  "run_listReminders F store payload =
     (case ensureAccessError F of
        Some e \<Rightarrow> Inl e
      | None \<Rightarrow>
          if (case lrp_limit payload of None \<Rightarrow> True | Some limit \<Rightarrow> fitsInt limit)
             \<and> (case lrp_offset payload of None \<Rightarrow> True | Some offset \<Rightarrow> fitsInt offset)
          then operationListReminders F store payload
          else Inl (foreignError (decodingErrorDescription F)))"

text \<open>
  The top level of the helper prints the error envelope and exits with status 1;
  \<open>runHelper\<close> then parses the envelope from the rejection and throws an error with the
  message \<open>parsed.error || `EventKit helper failed for operation '${op}'`\<close>. A success
  envelope is taken to fit the output buffer that \<open>runHelper\<close> gives \<open>execFile\<close>, so that
  the service receives the result the operation returned.
\<close>

definition errorText :: "HelperError \<Rightarrow> string" where
  "errorText e = (case e of message t \<Rightarrow> t | foreignError t \<Rightarrow> t)"

definition thrownFor :: "string \<Rightarrow> HelperError \<Rightarrow> JSError" where
  "thrownFor op e =
     newError (if errorText e = [] then ''EventKit helper failed for operation '' @ quoted op
               else errorText e)"

text \<open>The JSON of a \<open>ReminderRecord\<close> read as a \<open>HelperReminder\<close>: the encoder leaves out
  the optionals that are \<open>nil\<close>.\<close>

definition wireReminder :: "ReminderRecord \<Rightarrow> HelperReminder" where
  "wireReminder rr =
     \<lparr>hr_id = rec_id rr,
      hr_name = rec_name rr,
      hr_body = rec_body rr,
      hr_completed = rec_completed rr,
      hr_completionDate = rec_completionDate rr,
      hr_dueDate = rec_dueDate rr,
      hr_allDayDueDate = rec_allDayDueDate rr,
      hr_remindMeDate = rec_remindMeDate rr,
      hr_priority = Some (rec_priority rr),
      hr_creationDate = rec_creationDate rr,
      hr_modificationDate = rec_modificationDate rr,
      hr_listName = rec_listName rr\<rparr>"

subsection \<open>Listing through the tool (src/tools/reminders.ts, src/schemas/index.ts)\<close>

definition DEFAULT_LIMIT :: int where
  "DEFAULT_LIMIT = 50"

definition MAX_LIMIT :: int where
  "MAX_LIMIT = 200"

text \<open>The arguments of the tool before validation (the response format, which only selects
  the rendering, is left out) and after.\<close>

record ListRemindersInput =
  in_listName :: "string option"
  in_completed :: "bool option"
  in_limit :: "int option"
  in_offset :: "int option"

record ListRemindersParams =
  p_listName :: "string option"
  p_completed :: "bool option"
  p_limit :: int
  p_offset :: int

text \<open>\<open>ListRemindersSchema\<close>: \<open>limit\<close> is an integer from 1 to \<open>MAX_LIMIT\<close> with default
  \<open>DEFAULT_LIMIT\<close>, \<open>offset\<close> an integer from 0 with default 0; \<open>None\<close> when the validation
  rejects the arguments.\<close>

definition ListRemindersSchema :: "ListRemindersInput \<Rightarrow> ListRemindersParams option" where
  "ListRemindersSchema i =
     (let limit = (case in_limit i of None \<Rightarrow> DEFAULT_LIMIT | Some l \<Rightarrow> l);
          offset = (case in_offset i of None \<Rightarrow> 0 | Some x \<Rightarrow> x)
      in if 1 \<le> limit \<and> limit \<le> MAX_LIMIT \<and> 0 \<le> offset
         then Some \<lparr>p_listName = in_listName i, p_completed = in_completed i,
                    p_limit = limit, p_offset = offset\<rparr>
         else None)"

definition getPaginatedReminders ::
  "Node \<Rightarrow> Foundation \<Rightarrow> EKEventStore \<Rightarrow> ListRemindersParams \<Rightarrow> JSError + int \<times> Reminder list" where
  "getPaginatedReminders N F store params =
     (case run_listReminders F store
             \<lparr>lrp_listName = p_listName params, lrp_completed = p_completed params,
              lrp_limit = Some (p_limit params), lrp_offset = Some (p_offset params)\<rparr> of
        Inl e \<Rightarrow> Inl (thrownFor ''listReminders'' e)
      | Inr result \<Rightarrow>
          Inr (total result, map (mapReminderService N) (map wireReminder (resultReminders result))))"

record ListRemindersOutput =
  out_total :: int
  out_count :: int
  out_offset :: int
  out_reminders :: "Reminder list"
  out_hasMore :: bool
  out_nextOffset :: "int option"

text \<open>The handler of \<open>reminders_list\<close>; \<open>Inl\<close> is the text of its error result. The sums of
  the handler are sums of doubles; for the integers that pass the schema and a total that
  is a length, their comparison with the total is the comparison of the exact sums.\<close>

definition reminders_list ::
  "Node \<Rightarrow> Foundation \<Rightarrow> EKEventStore \<Rightarrow> ListRemindersParams \<Rightarrow> string + ListRemindersOutput" where
  "reminders_list N F store params =
     (case getPaginatedReminders N F store params of
        Inl e \<Rightarrow> Inl (''Error listing reminders: '' @ errMessage e)
      | Inr (tot, paginatedReminders) \<Rightarrow>
          (let hasMore = (p_offset params + p_limit params < tot)
           in Inr \<lparr>out_total = tot,
                   out_count = int (length paginatedReminders),
                   out_offset = p_offset params,
                   out_reminders = paginatedReminders,
                   out_hasMore = hasMore,
                   out_nextOffset =
                     (if hasMore then Some (p_offset params + p_limit params) else None)\<rparr>))"

text \<open>The reminders of the \<open>k\<close>-th page of size \<open>limit\<close>: the request with offset
  \<open>k * limit\<close>.\<close>

definition listPage ::
  "Node \<Rightarrow> Foundation \<Rightarrow> EKEventStore \<Rightarrow> ListRemindersParams \<Rightarrow> nat \<Rightarrow> Reminder list" where
  "listPage N F store params k =
     (case reminders_list N F store (params\<lparr>p_offset := int k * p_limit params\<rparr>) of
        Inl _ \<Rightarrow> []
      | Inr out \<Rightarrow> out_reminders out)"

section \<open>Reference definitions\<close>

text \<open>The reminders a filter pair selects, in store order: those of the named list (all
  for no name) with the given completion flag (any for none).\<close>

definition filteredReminders :: "EKEventStore \<Rightarrow> string option \<Rightarrow> bool option \<Rightarrow> EKReminder list" where
  "filteredReminders store listName completed =
     filterCompleted completed
       (case listName of
          None \<Rightarrow> reminders store
        | Some n \<Rightarrow> filter (\<lambda>r. Some (calendar r) = calendarByName n (calendars store))
                     (reminders store))"

text \<open>
  The filter of a listing in the specification's words, written without the helper's
  functions: a reminder belongs to the list named \<open>n\<close> when its list is the first list of
  the store with that name, and it matches a filter pair when it belongs to the named list
  (any list for no name) and has the given completion flag (any for none).
\<close>

definition inListNamed :: "EKEventStore \<Rightarrow> string \<Rightarrow> EKReminder \<Rightarrow> bool" where
  "inListNamed store n r =
     (calendar r \<in> set (take 1 (filter (\<lambda>c. calendarTitle c = n) (calendars store))))"

definition matchesFilter :: "EKEventStore \<Rightarrow> string option \<Rightarrow> bool option \<Rightarrow> EKReminder \<Rightarrow> bool" where
  "matchesFilter store listName completed r =
     ((case listName of None \<Rightarrow> True | Some n \<Rightarrow> inListNamed store n r)
      \<and> (case completed of None \<Rightarrow> True | Some c \<Rightarrow> isCompleted r = c))"

text \<open>The full sorted filtered sequence as the tool reports it: the reminders of the store
  that match the filter, sorted by the library's stable \<open>sort_key\<close> on the canonical key,
  each converted to the canonical record.\<close>

definition sortedFiltered ::
  "Node \<Rightarrow> Foundation \<Rightarrow> EKEventStore \<Rightarrow> string option \<Rightarrow> bool option \<Rightarrow> Reminder list" where
  "sortedFiltered N F store listName completed =
     map (mapReminderService N) (map wireReminder (map (mapReminder F)
       (sort_key (canonicalKey F)
          (filter (matchesFilter store listName completed) (reminders store)))))"

text \<open>The lookup as the specification words it: the first reminder with the given name in
  the canonical sort order of the list's reminders.\<close>

definition firstInCanonicalOrder ::
  "Foundation \<Rightarrow> EKEventStore \<Rightarrow> string \<Rightarrow> string \<Rightarrow> EKReminder option" where
  "firstInCanonicalOrder F store listName reminderName =
     find (\<lambda>r. title r = reminderName)
       (sortReminders F (filteredReminders store (Some listName) None))"

text \<open>The day that a date-only string \<open>YYYY-MM-DD\<close> names: its year, month and day.\<close>

definition decimal :: "string \<Rightarrow> int option" where
  "decimal s =
     (if s \<noteq> [] \<and> list_all (\<lambda>c. CHR ''0'' \<le> c \<and> c \<le> CHR ''9'') s
      then Some (foldl (\<lambda>a c. 10 * a + (int (of_char c) - 48)) 0 s)
      else None)"

definition allDayValue :: "string \<Rightarrow> (int \<times> int \<times> int) option" where
  "allDayValue s =
     (if length s = 10 \<and> s ! 4 = CHR ''-'' \<and> s ! 7 = CHR ''-''
      then
        (case (decimal (take 4 s), decimal (take 2 (drop 5 s)), decimal (drop 8 s)) of
           (Some y, Some m, Some d) \<Rightarrow> Some (y, m, d)
         | _ \<Rightarrow> None)
      else None)"

text \<open>A timestamp string that is missing or that the date parser rejects.\<close>

definition missingOrUnparseable :: "Node \<Rightarrow> string option \<Rightarrow> bool" where
  "missingOrUnparseable N v = (case v of None \<Rightarrow> True | Some s \<Rightarrow> Date_parse N s = None)"

text \<open>What a listing request returns when it succeeds, and when it succeeds: access is
  granted, limit and offset are 64-bit integers, the list (if one is named) exists and the
  fetch does not time out.\<close>

definition listOutput ::
  "Node \<Rightarrow> Foundation \<Rightarrow> EKEventStore \<Rightarrow> ListRemindersParams \<Rightarrow> ListRemindersOutput" where
  "listOutput N F store p =
     (let full = sortedFiltered N F store (p_listName p) (p_completed p);
          page = take (nat (max 1 (p_limit p))) (drop (nat (max 0 (p_offset p))) full)
      in \<lparr>out_total = int (length full),
          out_count = int (length page),
          out_offset = p_offset p,
          out_reminders = page,
          out_hasMore = (p_offset p + p_limit p < int (length full)),
          out_nextOffset =
            (if p_offset p + p_limit p < int (length full)
             then Some (p_offset p + p_limit p) else None)\<rparr>)"

definition listSucceeds :: "Foundation \<Rightarrow> EKEventStore \<Rightarrow> ListRemindersParams \<Rightarrow> bool" where
  "listSucceeds F store p =
     (ensureAccessError F = None \<and> fitsInt (p_limit p) \<and> fitsInt (p_offset p)
      \<and> (case selectCalendars (p_listName p) (calendars store) of Inl _ \<Rightarrow> False | Inr _ \<Rightarrow> True)
      \<and> \<not> fetchTimedOut F)"

section \<open>A concrete platform and store\<close>

text \<open>
  A platform that knows two dates, 2024-03-10 09:00:00 UTC and the day 2024-03-05, in a
  calendar whose time zone is UTC, and a store with two lists and three reminders. They
  are the concrete inputs at which the theorems below are instantiated.
\<close>

definition exampleFoundation :: Foundation where
  "exampleFoundation =
     \<lparr>isoWithFractionalSeconds_date =
        (\<lambda>s. if s = ''2024-03-10T09:00:00.000Z'' then Some 1710061200000 else None),
      isoWithoutFractionalSeconds_date =
        (\<lambda>s. if s = ''2024-03-10T09:00:00Z'' then Some 1710061200000 else None),
      isoWithFractionalSeconds_string =
        (\<lambda>d. if d = 1710061200000 then ''2024-03-10T09:00:00.000Z''
             else if d = 1709596800000 then ''2024-03-05T00:00:00.000Z''
             else ''2023-11-14T22:13:20.000Z''),
      allDayDateFormatter_date =
        (\<lambda>s. if s = ''2024-03-05'' then Some 1709596800000 else None),
      calendar_dateComponents =
        (\<lambda>d. if d = 1710061200000 then (2024, 3, 10, 9, 0, 0) else (2024, 3, 5, 0, 0, 0)),
      calendar_date =
        (\<lambda>c. if year c = Some 2024 \<and> month c = Some 3 \<and> day c = Some 10
             then Some 1710061200000
             else if year c = Some 2024 \<and> month c = Some 3 \<and> day c = Some 5
             then Some 1709596800000
             else None),
      currentDate = 1711000000000,
      fetchTimedOut = False,
      saveError = (\<lambda>r. None),
      removeError = (\<lambda>r. None),
      newCalendarItemIdentifier = ''id-4'',
      ensureAccessError = None,
      decodingErrorDescription = ''The data is not in the correct format.''\<rparr>"

text \<open>
  The same platform on a machine eight hours west of UTC. The formatters, which the helper
  fixes to UTC, are as before; the current calendar sees the instant 2024-03-10 09:00:00
  UTC as 2024-03-10 01:00:00 and the instant 2024-03-05 00:00:00 UTC as 2024-03-04
  16:00:00, and takes the day 2024-03-04 to begin at 2024-03-04 08:00:00 UTC.
\<close>

definition westFoundation :: Foundation where
  "westFoundation =
     exampleFoundation
       \<lparr>calendar_dateComponents :=
          (\<lambda>d. if d = 1710061200000 then (2024, 3, 10, 1, 0, 0) else (2024, 3, 4, 16, 0, 0)),
        calendar_date :=
          (\<lambda>c. if year c = Some 2024 \<and> month c = Some 3 \<and> day c = Some 10
               then Some 1710061200000
               else if year c = Some 2024 \<and> month c = Some 3 \<and> day c = Some 4
               then Some 1709539200000
               else None)\<rparr>"

definition workCalendar :: EKCalendar where
  "workCalendar = \<lparr>calendarIdentifier = ''cal-1'', calendarTitle = ''Work''\<rparr>"

definition homeCalendar :: EKCalendar where
  "homeCalendar = \<lparr>calendarIdentifier = ''cal-2'', calendarTitle = ''Home''\<rparr>"

text \<open>"Call", without a due date.\<close>

definition callUndated :: EKReminder where
  "callUndated =
     \<lparr>calendarItemIdentifier = ''id-1'', title = ''Call'', notesText = None,
      isCompleted = False, completionDate = None, dueDateComponents = None,
      alarms = Some [EKAlarm_relativeOffset (- 600), EKAlarm_absoluteDate 1710000000000],
      priority = 0, creationDate = Some 1700000000000,
      lastModifiedDate = Some 1700000000000, calendar = workCalendar\<rparr>"

text \<open>A second "Call" in the same list, due 2024-03-10 09:00:00.\<close>

definition callDated :: EKReminder where
  "callDated =
     \<lparr>calendarItemIdentifier = ''id-2'', title = ''Call'', notesText = Some ''back'',
      isCompleted = False, completionDate = None,
      dueDateComponents =
        Some \<lparr>year = Some 2024, month = Some 3, day = Some 10,
              hour = Some 9, minute = Some 0, second = Some 0\<rparr>,
      alarms = None,
      priority = 5, creationDate = Some 1700000000000,
      lastModifiedDate = None, calendar = workCalendar\<rparr>"

text \<open>"report", due on the day 2024-03-05.\<close>

definition reportAllDay :: EKReminder where
  "reportAllDay =
     \<lparr>calendarItemIdentifier = ''id-3'', title = ''report'', notesText = None,
      isCompleted = True, completionDate = Some 1709600000000,
      dueDateComponents =
        Some \<lparr>year = Some 2024, month = Some 3, day = Some 5,
              hour = None, minute = None, second = None\<rparr>,
      alarms = None,
      priority = 9, creationDate = None,
      lastModifiedDate = None, calendar = workCalendar\<rparr>"

text \<open>A reminder that differs from the undated "Call" in its identifier only.\<close>

definition callTwin :: EKReminder where
  "callTwin = callUndated\<lparr>calendarItemIdentifier := ''id-5''\<rparr>"

definition exampleStore :: EKEventStore where
  "exampleStore =
     \<lparr>calendars = [workCalendar, homeCalendar],
      reminders = [callUndated, callDated, reportAllDay]\<rparr>"

text \<open>The same store with its reminders returned in another order.\<close>

definition exampleStoreReordered :: EKEventStore where
  "exampleStoreReordered =
     \<lparr>calendars = [workCalendar, homeCalendar],
      reminders = [reportAllDay, callUndated, callDated]\<rparr>"

text \<open>A runtime whose JSON parser knows one text, the error envelope
  \<open>{"ok":false,"error":"No updates provided"}\<close>, and whose date parser knows the two dates
  of the platform above.\<close>

definition errorEnvelopeText :: string where
  "errorEnvelopeText =
     ''{'' @ [CHR 0x22] @ ''ok'' @ [CHR 0x22] @ '':false,'' @ [CHR 0x22] @ ''error''
     @ [CHR 0x22] @ '':'' @ [CHR 0x22] @ ''No updates provided'' @ [CHR 0x22] @ ''}''"

definition exampleNode :: Node where
  "exampleNode =
     \<lparr>JSON_parse =
        (\<lambda>s. if s = errorEnvelopeText
             then Some (JObject [(''ok'', JBool False),
                                 (''error'', JString ''No updates provided'')])
             else None),
      String_of = (\<lambda>v. ''[object Object]''),
      nullPropertyMessage = (\<lambda>k. ''Cannot read properties of null (reading '' @ quoted k @ '')''),
      Date_parse =
        (\<lambda>s. if s = ''2024-03-10T09:00:00.000Z'' then Some 1710061200000
             else if s = ''2024-03-05T00:00:00.000Z'' then Some 1709596800000
             else if s = ''2023-11-14T22:13:20.000Z'' then Some 1700000000000
             else None),
      Date_now = 1711000000000\<rparr>"

text \<open>Three requests: a creation and an update that supply a timed due date, an all-day
  due date and a notification date at once, and an update that only marks the reminder as
  completed.\<close>

definition createBothDates :: CreateReminderPayload where
  "createBothDates =
     \<lparr>cp_name = ''Pay rent'', cp_listName = ''Home'', cp_body = None,
      cp_dueDate = Some ''2024-03-10T09:00:00Z'', cp_allDayDueDate = Some ''2024-03-05'',
      cp_remindMeDate = Some ''2024-03-10T09:00:00.000Z'', cp_priority = None\<rparr>"

definition updateBothDates :: UpdateReminderPayload where
  "updateBothDates =
     \<lparr>up_listName = ''Work'', up_reminderName = ''Call'', up_newName = None, up_body = None,
      up_dueDate = Some ''2024-03-10T09:00:00Z'', up_allDayDueDate = Some ''2024-03-05'',
      up_remindMeDate = Some ''2024-03-10T09:00:00.000Z'', up_priority = None,
      up_completed = None\<rparr>"

definition updateCompleted :: UpdateReminderPayload where
  "updateCompleted =
     \<lparr>up_listName = ''Work'', up_reminderName = ''Call'', up_newName = None, up_body = None,
      up_dueDate = None, up_allDayDueDate = None,
      up_remindMeDate = None, up_priority = None,
      up_completed = Some True\<rparr>"


text \<open>The request to delete "Call" from "Work".\<close>

definition deleteCall :: DeleteReminderPayload where
  "deleteCall = \<lparr>dp_listName = ''Work'', dp_reminderName = ''Call''\<rparr>"

text \<open>A record of the helper without a completion, all-day or modification date, and with
  a due, a notification and a creation date that do not parse.\<close>

definition helperReminderNoDates :: HelperReminder where
  "helperReminderNoDates =
     \<lparr>hr_id = ''id-1'', hr_name = ''Call'', hr_body = None, hr_completed = False,
      hr_completionDate = None, hr_dueDate = Some ''soon'', hr_allDayDueDate = None,
      hr_remindMeDate = Some ''never'', hr_priority = Some 0,
      hr_creationDate = Some ''yesterday'', hr_modificationDate = None,
      hr_listName = ''Work''\<rparr>"

text \<open>Two rejections of \<open>execFile\<close>: a helper that printed the error envelope and
  exited with status 1, and a process that printed nothing.\<close>

definition rejectionWithEnvelope :: JSError where
  "rejectionWithEnvelope =
     \<lparr>errMessage = ''Command failed'', errStdout = Some (errorEnvelopeText @ [CHR 0x0A]),
      errStderr = Some []\<rparr>"

definition rejectionWithoutOutput :: JSError where
  "rejectionWithoutOutput =
     \<lparr>errMessage = ''Command failed'', errStdout = None, errStderr = None\<rparr>"


text \<open>A rejection whose output is one no-break space.\<close>

definition nbspRejection :: JSError where
  "nbspRejection =
     \<lparr>errMessage = ''Command failed'', errStdout = Some [CHR 0xA0], errStderr = None\<rparr>"

text \<open>A listing request for the open reminders of "Work", one to a page.\<close>

definition filteredListInput :: ListRemindersInput where
  "filteredListInput =
     \<lparr>in_listName = Some ''Work'', in_completed = Some False, in_limit = Some 1,
      in_offset = None\<rparr>"

definition filteredListParams :: ListRemindersParams where
  "filteredListParams =
     \<lparr>p_listName = Some ''Work'', p_completed = Some False, p_limit = 1, p_offset = 0\<rparr>"


section \<open>Properties of the sort\<close>

lemma areInIncreasingOrder_key:
  "areInIncreasingOrder F a b = (canonicalKey F a < canonicalKey F b)"
  by (auto simp: areInIncreasingOrder_def canonicalKey_def afterDue_def Let_def
      localizedCaseInsensitiveCompare_def less_prod_def split: option.splits)

lemma mset_insertBy: "mset (insertBy lt x ys) = add_mset x (mset ys)"
  by (induction ys) auto

lemma mset_sortedBy: "mset (sortedBy lt xs) = mset xs"
  by (induction xs) (auto simp: sortedBy_def mset_insertBy)

lemma set_insertBy: "set (insertBy lt x ys) = insert x (set ys)"
  by (induction ys) auto

lemma sorted_insertBy:
  fixes k :: "'a \<Rightarrow> 'k::linorder"
  assumes lt: "\<And>x y. lt x y = (k x < k y)"
  shows "sorted (map k ys) \<Longrightarrow> sorted (map k (insertBy lt x ys))"
  by (induction ys) (auto simp: lt set_insertBy)

lemma sorted_sortedBy:
  fixes k :: "'a \<Rightarrow> 'k::linorder"
  assumes lt: "\<And>x y. lt x y = (k x < k y)"
  shows "sorted (map k (sortedBy lt xs))"
proof (induction xs)
  case Nil
  show ?case by (simp add: sortedBy_def)
next
  case (Cons x xs)
  have "sortedBy lt (x # xs) = insertBy lt x (sortedBy lt xs)"
    by (simp add: sortedBy_def)
  with Cons sorted_insertBy [of lt k, OF lt] show ?case by simp
qed

lemma insertBy_sorted_id:
  fixes k :: "'a \<Rightarrow> 'k::linorder"
  assumes lt: "\<And>x y. lt x y = (k x < k y)"
  shows "sorted (map k (x # ys)) \<Longrightarrow> insertBy lt x ys = x # ys"
  by (cases ys) (auto simp: lt)

lemma sortedBy_sorted_id:
  fixes k :: "'a \<Rightarrow> 'k::linorder"
  assumes lt: "\<And>x y. lt x y = (k x < k y)"
  shows "sorted (map k xs) \<Longrightarrow> sortedBy lt xs = xs"
proof (induction xs)
  case Nil
  show ?case by (simp add: sortedBy_def)
next
  case (Cons x xs)
  then have "sortedBy lt xs = xs" by simp
  then have "sortedBy lt (x # xs) = insertBy lt x xs"
    by (simp add: sortedBy_def)
  with Cons.prems insertBy_sorted_id [of lt k, OF lt] show ?case by simp
qed

lemma sortReminders_sorted: "sorted (map (canonicalKey F) (sortReminders F rs))"
  unfolding sortReminders_def
  by (rule sorted_sortedBy) (rule areInIncreasingOrder_key)

lemma sortReminders_sorted_id:
  "sorted (map (canonicalKey F) rs) \<Longrightarrow> sortReminders F rs = rs"
  unfolding sortReminders_def
  by (rule sortedBy_sorted_id) (rule areInIncreasingOrder_key)

lemma mset_sortReminders: "mset (sortReminders F rs) = mset rs"
  by (simp add: sortReminders_def mset_sortedBy)

lemma length_sortReminders: "length (sortReminders F rs) = length rs"
  using mset_sortReminders [of F rs] by (metis size_mset)

text \<open>The closure gives the insertion of the library's stable \<open>sort_key\<close> for the canonical
  key, so \<open>sortReminders\<close> is that sort.\<close>

lemma insertBy_insort_key:
  fixes k :: "'a \<Rightarrow> 'k::linorder"
  assumes lt: "\<And>x y. lt x y = (k x < k y)"
  shows "insertBy lt x ys = insort_key k x ys"
  by (induction ys) (auto simp: lt)

lemma sortedBy_sort_key:
  fixes k :: "'a \<Rightarrow> 'k::linorder"
  assumes lt: "\<And>x y. lt x y = (k x < k y)"
  shows "sortedBy lt xs = sort_key k xs"
  by (induction xs) (simp_all add: sortedBy_def sort_key_def insertBy_insort_key [of lt k, OF lt])

lemma sortReminders_sort_key: "sortReminders F rs = sort_key (canonicalKey F) rs"
  unfolding sortReminders_def
  by (rule sortedBy_sort_key) (rule areInIncreasingOrder_key)

text \<open>
  C1, as the helper has it. The closure of \<open>sortReminders\<close> is the strict order of the
  canonical key, a strict weak order on reminders: it is irreflexive and transitive, and of
  two reminders exactly one of "a before b", "b before a", "equal keys" holds. It orders by
  due date (dated before undated, ascending), then by descending last-modified timestamp
  (creation timestamp where that is absent), then by case-insensitive name. Reminders with
  equal keys are not ordered by it: \<open>sortReminders\<close> is the stable sort by the key, so its
  result is a rearrangement of its input in ascending key order in which the reminders of
  one key keep the order of the input. Sorting a sequence that is already in key order (in
  particular one that was sorted before) returns it unchanged.
\<close>

theorem sortReminders_strict_weak_order:
  "areInIncreasingOrder F a b = (canonicalKey F a < canonicalKey F b)
   \<and> \<not> areInIncreasingOrder F a a
   \<and> (areInIncreasingOrder F a b \<longrightarrow> areInIncreasingOrder F b c \<longrightarrow> areInIncreasingOrder F a c)
   \<and> (of_bool (areInIncreasingOrder F a b) + of_bool (areInIncreasingOrder F b a)
        + of_bool (canonicalKey F a = canonicalKey F b) = (1::nat))
   \<and> modStamp (a\<lparr>lastModifiedDate := Some d\<rparr>) = d
   \<and> modStamp (a\<lparr>lastModifiedDate := None, creationDate := Some d\<rparr>) = d
   \<and> mset (sortReminders F rs) = mset rs
   \<and> sorted (map (canonicalKey F) (sortReminders F rs))
   \<and> filter (\<lambda>r. canonicalKey F r = key) (sortReminders F rs)
       = filter (\<lambda>r. canonicalKey F r = key) rs
   \<and> sortReminders F rs = sort_key (canonicalKey F) rs
   \<and> (sorted (map (canonicalKey F) rs) \<longrightarrow> sortReminders F rs = rs)
   \<and> sortReminders F (sortReminders F rs) = sortReminders F rs"
proof -
  have tri: "of_bool (canonicalKey F a < canonicalKey F b)
      + of_bool (canonicalKey F b < canonicalKey F a)
      + of_bool (canonicalKey F a = canonicalKey F b) = (1::nat)"
    by (cases "canonicalKey F a" "canonicalKey F b" rule: linorder_cases) auto
  have idem: "sortReminders F (sortReminders F rs) = sortReminders F rs"
    by (rule sortReminders_sorted_id) (rule sortReminders_sorted)
  have stable: "filter (\<lambda>r. canonicalKey F r = key) (sortReminders F rs)
       = filter (\<lambda>r. canonicalKey F r = key) rs"
    by (simp add: sortReminders_sort_key sort_key_stable)
  have lib: "sortReminders F rs = sort_key (canonicalKey F) rs"
    by (rule sortReminders_sort_key)
  have ord: "areInIncreasingOrder F a b = (canonicalKey F a < canonicalKey F b)
   \<and> \<not> areInIncreasingOrder F a a
   \<and> (areInIncreasingOrder F a b \<longrightarrow> areInIncreasingOrder F b c \<longrightarrow> areInIncreasingOrder F a c)
   \<and> (of_bool (areInIncreasingOrder F a b) + of_bool (areInIncreasingOrder F b a)
        + of_bool (canonicalKey F a = canonicalKey F b) = (1::nat))"
    using tri by (auto simp: areInIncreasingOrder_key)
  have stamp: "modStamp (a\<lparr>lastModifiedDate := Some d\<rparr>) = d
   \<and> modStamp (a\<lparr>lastModifiedDate := None, creationDate := Some d\<rparr>) = d"
    by (simp add: modStamp_def)
  have srt: "mset (sortReminders F rs) = mset rs
   \<and> sorted (map (canonicalKey F) (sortReminders F rs))
   \<and> (sorted (map (canonicalKey F) rs) \<longrightarrow> sortReminders F rs = rs)"
    by (simp add: mset_sortReminders sortReminders_sorted sortReminders_sorted_id)
  from ord stamp srt stable lib idem show ?thesis by blast
qed


theorem sortReminders_strict_weak_order_witness:
  "areInIncreasingOrder exampleFoundation reportAllDay callDated
   \<and> areInIncreasingOrder exampleFoundation callDated callUndated
   \<and> areInIncreasingOrder exampleFoundation reportAllDay callUndated
   \<and> sorted (map (canonicalKey exampleFoundation) [reportAllDay, callDated, callUndated])
   \<and> sortReminders exampleFoundation [reportAllDay, callDated, callUndated]
       = [reportAllDay, callDated, callUndated]"
proof -
  have h1: "areInIncreasingOrder exampleFoundation reportAllDay callDated"
    by code_simp
  have h2: "areInIncreasingOrder exampleFoundation callDated callUndated"
    by code_simp
  have h3: "sorted (map (canonicalKey exampleFoundation) [reportAllDay, callDated, callUndated])"
    by code_simp
  show ?thesis
    using h1 h2 h3
      sortReminders_strict_weak_order
        [of exampleFoundation reportAllDay callDated callUndated 0
            "[reportAllDay, callDated, callUndated]"]
    by blast
qed


text \<open>
  C1 as stated fails: the closure is not a total order on reminders. Two different
  reminders with no due date, the same modification date and the same name are ordered in
  neither direction, and the sorted sequence has them in the order of its input.
\<close>

theorem sortReminders_leaves_ties_unordered:
  "callUndated \<noteq> callTwin
   \<and> \<not> areInIncreasingOrder exampleFoundation callUndated callTwin
   \<and> \<not> areInIncreasingOrder exampleFoundation callTwin callUndated
   \<and> sortReminders exampleFoundation [callUndated, callTwin] = [callUndated, callTwin]
   \<and> sortReminders exampleFoundation [callTwin, callUndated] = [callTwin, callUndated]"
  by code_simp

section \<open>Listing and counting\<close>

lemma selectCalendars_fetch:
  "selectCalendars lname (calendars store) = Inr sel \<Longrightarrow> \<not> fetchTimedOut F \<Longrightarrow>
   \<exists>fetched. fetchReminders F store sel = Inr fetched
     \<and> filterCompleted c fetched = filteredReminders store lname c"
  by (auto simp: selectCalendars_def fetchReminders_def filteredReminders_def
      split: option.splits intro!: arg_cong [where f = "filterCompleted c"] filter_cong)

lemma operationListReminders_unfold:
  "operationListReminders F store p =
     (case selectCalendars (lrp_listName p) (calendars store) of
        Inl e \<Rightarrow> Inl e
      | Inr sel \<Rightarrow>
          if fetchTimedOut F then Inl (message ''Timed out while fetching reminders from EventKit'')
          else
            (let rs = sortReminders F (filteredReminders store (lrp_listName p) (lrp_completed p))
             in Inr \<lparr>total = int (length rs),
                     resultReminders = map (mapReminder F)
                       (take (nat (max 1 (case lrp_limit p of None \<Rightarrow> int (length rs) | Some l \<Rightarrow> l)))
                          (drop (nat (max 0 (case lrp_offset p of None \<Rightarrow> 0 | Some x \<Rightarrow> x))) rs))\<rparr>))"
proof (cases "selectCalendars (lrp_listName p) (calendars store)")
  case (Inl e)
  then show ?thesis by (simp add: operationListReminders_def allReminderCalendars_def)
next
  case (Inr sel)
  show ?thesis
  proof (cases "fetchTimedOut F")
    case True
    with Inr show ?thesis
      by (simp add: operationListReminders_def allReminderCalendars_def fetchReminders_def)
  next
    case False
    from selectCalendars_fetch [OF Inr False, of "lrp_completed p"]
    obtain fetched where "fetchReminders F store sel = Inr fetched"
      and "filterCompleted (lrp_completed p) fetched
           = filteredReminders store (lrp_listName p) (lrp_completed p)"
      by blast
    with Inr False show ?thesis
      by (simp add: operationListReminders_def allReminderCalendars_def Let_def)
  qed
qed

lemma operationCountReminders_unfold:
  "operationCountReminders F store p =
     (case selectCalendars (crp_listName p) (calendars store) of
        Inl e \<Rightarrow> Inl e
      | Inr sel \<Rightarrow>
          if fetchTimedOut F then Inl (message ''Timed out while fetching reminders from EventKit'')
          else Inr (int (length (filteredReminders store (crp_listName p) (crp_completed p)))))"
proof (cases "selectCalendars (crp_listName p) (calendars store)")
  case (Inl e)
  then show ?thesis by (simp add: operationCountReminders_def allReminderCalendars_def)
next
  case (Inr sel)
  show ?thesis
  proof (cases "fetchTimedOut F")
    case True
    with Inr show ?thesis
      by (simp add: operationCountReminders_def allReminderCalendars_def fetchReminders_def)
  next
    case False
    from selectCalendars_fetch [OF Inr False, of "crp_completed p"]
    obtain fetched where "fetchReminders F store sel = Inr fetched"
      and "filterCompleted (crp_completed p) fetched
           = filteredReminders store (crp_listName p) (crp_completed p)"
      by blast
    with Inr False show ?thesis
      by (simp add: operationCountReminders_def allReminderCalendars_def)
  qed
qed

text \<open>
  C3. Over the same store, when \<open>operationCountReminders\<close> returns the count \<open>n\<close> for a
  filter pair, \<open>operationListReminders\<close> with the same filter, a limit of at least \<open>n\<close> and
  the default offset (absent, or 0) succeeds, returns exactly \<open>n\<close> reminders and reports
  the total \<open>n\<close>; and when the count fails (unknown list, timeout), the listing fails with
  the same error.
\<close>

theorem count_equals_listing_length:
  "(operationCountReminders F store \<lparr>crp_listName = lname, crp_completed = c\<rparr> = Inr n
      \<and> n \<le> limit \<and> (off = None \<or> off = Some 0) \<longrightarrow>
      (\<exists>r. operationListReminders F store
              \<lparr>lrp_listName = lname, lrp_completed = c, lrp_limit = Some limit, lrp_offset = off\<rparr>
            = Inr r
         \<and> int (length (resultReminders r)) = n \<and> total r = n))
   \<and> (operationCountReminders F store \<lparr>crp_listName = lname, crp_completed = c\<rparr> = Inl e \<longrightarrow>
        operationListReminders F store
          \<lparr>lrp_listName = lname, lrp_completed = c, lrp_limit = Some limit, lrp_offset = off\<rparr>
        = Inl e)"
  by (auto simp: operationCountReminders_unfold operationListReminders_unfold Let_def
      length_sortReminders split: sum.splits if_splits)

theorem count_equals_listing_length_witness:
  "operationCountReminders exampleFoundation exampleStore
     \<lparr>crp_listName = Some ''Work'', crp_completed = Some False\<rparr> = Inr 2
   \<and> (\<exists>r. operationListReminders exampleFoundation exampleStore
             \<lparr>lrp_listName = Some ''Work'', lrp_completed = Some False,
              lrp_limit = Some 2, lrp_offset = None\<rparr> = Inr r
        \<and> int (length (resultReminders r)) = 2 \<and> total r = 2)
   \<and> operationCountReminders exampleFoundation exampleStore
       \<lparr>crp_listName = Some ''Shop'', crp_completed = Some False\<rparr>
       = Inl (message (''List '' @ quoted ''Shop'' @ '' not found''))
   \<and> operationListReminders exampleFoundation exampleStore
       \<lparr>lrp_listName = Some ''Shop'', lrp_completed = Some False,
        lrp_limit = Some 2, lrp_offset = None\<rparr>
       = Inl (message (''List '' @ quoted ''Shop'' @ '' not found''))"
proof -
  have h1: "operationCountReminders exampleFoundation exampleStore
      \<lparr>crp_listName = Some ''Work'', crp_completed = Some False\<rparr> = Inr 2"
    by code_simp
  have h2: "operationCountReminders exampleFoundation exampleStore
      \<lparr>crp_listName = Some ''Shop'', crp_completed = Some False\<rparr>
      = Inl (message (''List '' @ quoted ''Shop'' @ '' not found''))"
    by code_simp
  show ?thesis
    using h1 h2
      count_equals_listing_length
        [of exampleFoundation exampleStore "Some ''Work''" "Some False" 2 2 None
            "message (''List '' @ quoted ''Shop'' @ '' not found'')"]
      count_equals_listing_length
        [of exampleFoundation exampleStore "Some ''Shop''" "Some False" 2 2 None
            "message (''List '' @ quoted ''Shop'' @ '' not found'')"]
    by simp
qed

section \<open>Updating\<close>

text \<open>
  C4. An update request in which \<open>newName\<close>, \<open>body\<close>, \<open>dueDate\<close>, \<open>allDayDueDate\<close>,
  \<open>remindMeDate\<close>, \<open>priority\<close> and \<open>completed\<close> are all absent fails with the error
  "No updates provided" and leaves the store as it was.
\<close>

theorem update_without_fields_fails:
  "up_newName p = None \<and> up_body p = None \<and> up_dueDate p = None \<and> up_allDayDueDate p = None
     \<and> up_remindMeDate p = None \<and> up_priority p = None \<and> up_completed p = None \<longrightarrow>
   operationUpdateReminder F store p = (Inl (message ''No updates provided''), store)"
  by (simp add: operationUpdateReminder_def)

theorem update_without_fields_fails_witness:
  "operationUpdateReminder exampleFoundation exampleStore
     \<lparr>up_listName = ''Work'', up_reminderName = ''Call'', up_newName = None, up_body = None,
      up_dueDate = None, up_allDayDueDate = None, up_remindMeDate = None,
      up_priority = None, up_completed = None\<rparr>
   = (Inl (message ''No updates provided''), exampleStore)"
  using update_without_fields_fails
    [of "\<lparr>up_listName = ''Work'', up_reminderName = ''Call'', up_newName = None,
          up_body = None, up_dueDate = None, up_allDayDueDate = None,
          up_remindMeDate = None, up_priority = None, up_completed = None\<rparr>"
        exampleFoundation exampleStore]
  by simp

subsection \<open>The assignments of creation and update\<close>

lemma assignDueDate_fields:
  "assignDueDate F v r = Inr r' \<Longrightarrow>
     title r' = title r \<and> notesText r' = notesText r \<and> alarms r' = alarms r
     \<and> priority r' = priority r \<and> isCompleted r' = isCompleted r
     \<and> completionDate r' = completionDate r
     \<and> calendarItemIdentifier r' = calendarItemIdentifier r
     \<and> creationDate r' = creationDate r \<and> lastModifiedDate r' = lastModifiedDate r
     \<and> calendar r' = calendar r
     \<and> (v = None \<longrightarrow> r' = r)"
  by (auto simp: assignDueDate_def split: option.splits sum.splits)

lemma assignAllDayDueDate_fields:
  "assignAllDayDueDate F v r = Inr r' \<Longrightarrow>
     title r' = title r \<and> notesText r' = notesText r \<and> alarms r' = alarms r
     \<and> priority r' = priority r \<and> isCompleted r' = isCompleted r
     \<and> completionDate r' = completionDate r
     \<and> calendarItemIdentifier r' = calendarItemIdentifier r
     \<and> creationDate r' = creationDate r \<and> lastModifiedDate r' = lastModifiedDate r
     \<and> calendar r' = calendar r
     \<and> (v = None \<longrightarrow> r' = r)"
  by (auto simp: assignAllDayDueDate_def split: option.splits sum.splits)

lemma assignAllDayDueDate_Some:
  "assignAllDayDueDate F (Some a) r = Inr r' \<Longrightarrow>
     \<exists>c. dateComponentsFromAllDay F a = Inr c \<and> dueDateComponents r' = Some c
       \<and> hour c = None \<and> minute c = None \<and> second c = None
       \<and> year c \<noteq> None \<and> month c \<noteq> None \<and> day c \<noteq> None"
  by (auto simp: assignAllDayDueDate_def dateComponentsFromAllDay_def
      split: option.splits sum.splits prod.splits)

lemma assignRemindMeDate_fields:
  "assignRemindMeDate F v r = Inr r' \<Longrightarrow>
     title r' = title r \<and> notesText r' = notesText r
     \<and> dueDateComponents r' = dueDateComponents r
     \<and> priority r' = priority r \<and> isCompleted r' = isCompleted r
     \<and> completionDate r' = completionDate r
     \<and> calendarItemIdentifier r' = calendarItemIdentifier r
     \<and> creationDate r' = creationDate r \<and> lastModifiedDate r' = lastModifiedDate r
     \<and> calendar r' = calendar r
     \<and> (v = None \<longrightarrow> r' = r)"
  by (auto simp: assignRemindMeDate_def split: option.splits sum.splits)

lemma assignRemindMeDate_Some:
  "assignRemindMeDate F (Some s) r = Inr r' \<Longrightarrow>
     \<exists>t. parseISODate F s = Some t \<and> alarms r' = Some [EKAlarm_absoluteDate t]"
  by (auto simp: assignRemindMeDate_def split: option.splits)

lemma updatedReminder_steps:
  "updatedReminder F p r = Inr r' \<Longrightarrow>
   \<exists>r2 r3 r4.
     assignDueDate F (up_dueDate p)
       (case up_body p of
          None \<Rightarrow> (case up_newName p of None \<Rightarrow> r | Some n \<Rightarrow> r\<lparr>title := n\<rparr>)
        | Some b \<Rightarrow> (case up_newName p of None \<Rightarrow> r | Some n \<Rightarrow> r\<lparr>title := n\<rparr>)\<lparr>notesText := Some b\<rparr>)
       = Inr r2
     \<and> assignAllDayDueDate F (up_allDayDueDate p) r2 = Inr r3
     \<and> assignRemindMeDate F (up_remindMeDate p) r3 = Inr r4
     \<and> r' = (case up_completed p of
              None \<Rightarrow> (case up_priority p of None \<Rightarrow> r4 | Some q \<Rightarrow> r4\<lparr>priority := q\<rparr>)
            | Some c \<Rightarrow> (case up_priority p of None \<Rightarrow> r4 | Some q \<Rightarrow> r4\<lparr>priority := q\<rparr>)
                \<lparr>isCompleted := c, completionDate := (if c then Some (currentDate F) else None)\<rparr>)"
  by (auto simp: updatedReminder_def Let_def split: sum.splits)

lemma createdReminder_steps:
  "createdReminder F cal p = Inr r' \<Longrightarrow>
   \<exists>r1 r2 r3 r4.
     assignDueDate F (cp_dueDate p) r1 = Inr r2
     \<and> assignAllDayDueDate F (cp_allDayDueDate p) r2 = Inr r3
     \<and> assignRemindMeDate F (cp_remindMeDate p) r3 = Inr r4
     \<and> r' = (case cp_priority p of None \<Rightarrow> r4 | Some q \<Rightarrow> r4\<lparr>priority := q\<rparr>)"
  by (auto simp: createdReminder_def Let_def split: sum.splits)

lemma operationUpdateReminder_success:
  "operationUpdateReminder F store p = (Inr res, store') \<Longrightarrow>
   \<exists>old new. locateReminderByName F store (up_listName p) (up_reminderName p) = Inr old
     \<and> updatedReminder F p old = Inr new
     \<and> store' = store\<lparr>reminders := replaceFirst old new (reminders store)\<rparr>"
  by (auto simp: operationUpdateReminder_def split: if_splits sum.splits option.splits)

lemma operationCreateReminder_success:
  "operationCreateReminder F store p = (Inr ident, store') \<Longrightarrow>
   \<exists>cal new. calendarByName (cp_listName p) (calendars store) = Some cal
     \<and> createdReminder F cal p = Inr new
     \<and> calendarItemIdentifier new = ident
     \<and> store' = store\<lparr>reminders := reminders store @ [new]\<rparr>"
  by (auto simp: operationCreateReminder_def allReminderCalendars_def
      split: if_splits sum.splits option.splits)

lemma find_SomeD: "find P xs = Some x \<Longrightarrow> x \<in> set xs \<and> P x"
  by (induction xs) (auto split: if_splits)

lemma locateReminderByName_found:
  "locateReminderByName F store lname rname = Inr r \<Longrightarrow>
     r \<in> set (reminders store) \<and> title r = rname"
  by (auto simp: locateReminderByName_def fetchReminders_def
      split: option.splits if_splits sum.splits dest!: find_SomeD)

lemma replaceFirst_mem: "old \<in> set xs \<Longrightarrow> new \<in> set (replaceFirst old new xs)"
  by (induction xs) auto


text \<open>
  The all-day assignment comes second. When a creation or an update that supplies both
  \<open>dueDate\<close> and \<open>allDayDueDate\<close> succeeds, the due-date components written to the store
  are the ones that \<open>dateComponentsFromAllDay\<close> computes from the all-day string, with year,
  month and day and no hour, minute or second.
\<close>

lemma allDay_assignment_overwrites:
  "(operationCreateReminder F store cp = (Inr ident, store')
      \<and> cp_dueDate cp = Some d \<and> cp_allDayDueDate cp = Some a \<longrightarrow>
      (\<exists>new c. reminders store' = reminders store @ [new]
         \<and> calendarItemIdentifier new = ident
         \<and> dueDateComponents new = Some c
         \<and> dateComponentsFromAllDay F a = Inr c
         \<and> hour c = None \<and> minute c = None \<and> second c = None
         \<and> year c \<noteq> None \<and> month c \<noteq> None \<and> day c \<noteq> None
         \<and> isAllDayDueDate new))
   \<and> (operationUpdateReminder F store up = (Inr res, store'')
      \<and> up_dueDate up = Some d \<and> up_allDayDueDate up = Some a \<longrightarrow>
      (\<exists>old new c. locateReminderByName F store (up_listName up) (up_reminderName up) = Inr old
         \<and> reminders store'' = replaceFirst old new (reminders store)
         \<and> new \<in> set (reminders store'')
         \<and> dueDateComponents new = Some c
         \<and> dateComponentsFromAllDay F a = Inr c
         \<and> hour c = None \<and> minute c = None \<and> second c = None
         \<and> year c \<noteq> None \<and> month c \<noteq> None \<and> day c \<noteq> None
         \<and> isAllDayDueDate new))"
proof (intro conjI impI)
  assume h: "operationCreateReminder F store cp = (Inr ident, store')
      \<and> cp_dueDate cp = Some d \<and> cp_allDayDueDate cp = Some a"
  from h operationCreateReminder_success [of F store cp ident store']
  obtain cal new where new: "createdReminder F cal cp = Inr new"
    "calendarItemIdentifier new = ident"
    "store' = store\<lparr>reminders := reminders store @ [new]\<rparr>"
    by blast
  from createdReminder_steps [OF new(1)] h
  obtain r1 r2 r3 r4 where s:
    "assignAllDayDueDate F (Some a) r2 = Inr r3"
    "assignRemindMeDate F (cp_remindMeDate cp) r3 = Inr r4"
    "new = (case cp_priority cp of None \<Rightarrow> r4 | Some q \<Rightarrow> r4\<lparr>priority := q\<rparr>)"
    by auto
  from assignAllDayDueDate_Some [OF s(1)]
  obtain c where c: "dateComponentsFromAllDay F a = Inr c" "dueDateComponents r3 = Some c"
    "hour c = None" "minute c = None" "second c = None"
    "year c \<noteq> None" "month c \<noteq> None" "day c \<noteq> None"
    by blast
  from assignRemindMeDate_fields [OF s(2)] c(2) have "dueDateComponents r4 = Some c"
    by simp
  with s(3) have d: "dueDateComponents new = Some c"
    by (simp split: option.splits)
  with c have "isAllDayDueDate new" by (simp add: isAllDayDueDate_def)
  with new c d
  show "\<exists>new c. reminders store' = reminders store @ [new]
         \<and> calendarItemIdentifier new = ident
         \<and> dueDateComponents new = Some c
         \<and> dateComponentsFromAllDay F a = Inr c
         \<and> hour c = None \<and> minute c = None \<and> second c = None
         \<and> year c \<noteq> None \<and> month c \<noteq> None \<and> day c \<noteq> None
         \<and> isAllDayDueDate new"
    by auto
next
  assume h: "operationUpdateReminder F store up = (Inr res, store'')
      \<and> up_dueDate up = Some d \<and> up_allDayDueDate up = Some a"
  from h operationUpdateReminder_success [of F store up res store'']
  obtain old new where new:
    "locateReminderByName F store (up_listName up) (up_reminderName up) = Inr old"
    "updatedReminder F up old = Inr new"
    "store'' = store\<lparr>reminders := replaceFirst old new (reminders store)\<rparr>"
    by blast
  from updatedReminder_steps [OF new(2)] h
  obtain r2 r3 r4 where s:
    "assignAllDayDueDate F (Some a) r2 = Inr r3"
    "assignRemindMeDate F (up_remindMeDate up) r3 = Inr r4"
    "new = (case up_completed up of
              None \<Rightarrow> (case up_priority up of None \<Rightarrow> r4 | Some q \<Rightarrow> r4\<lparr>priority := q\<rparr>)
            | Some c \<Rightarrow> (case up_priority up of None \<Rightarrow> r4 | Some q \<Rightarrow> r4\<lparr>priority := q\<rparr>)
                \<lparr>isCompleted := c, completionDate := (if c then Some (currentDate F) else None)\<rparr>)"
    by auto
  from assignAllDayDueDate_Some [OF s(1)]
  obtain c where c: "dateComponentsFromAllDay F a = Inr c" "dueDateComponents r3 = Some c"
    "hour c = None" "minute c = None" "second c = None"
    "year c \<noteq> None" "month c \<noteq> None" "day c \<noteq> None"
    by blast
  from assignRemindMeDate_fields [OF s(2)] c(2) have "dueDateComponents r4 = Some c"
    by simp
  with s(3) have d: "dueDateComponents new = Some c"
    by (simp split: option.splits)
  with c have a: "isAllDayDueDate new" by (simp add: isAllDayDueDate_def)
  from locateReminderByName_found [OF new(1)] new(3)
  have m: "new \<in> set (reminders store'')" by (simp add: replaceFirst_mem)
  from new c d a m
  show "\<exists>old new c. locateReminderByName F store (up_listName up) (up_reminderName up) = Inr old
         \<and> reminders store'' = replaceFirst old new (reminders store)
         \<and> new \<in> set (reminders store'')
         \<and> dueDateComponents new = Some c
         \<and> dateComponentsFromAllDay F a = Inr c
         \<and> hour c = None \<and> minute c = None \<and> second c = None
         \<and> year c \<noteq> None \<and> month c \<noteq> None \<and> day c \<noteq> None
         \<and> isAllDayDueDate new"
    by auto
qed

text \<open>
  C5. The slot is overwritten by the all-day assignment, but it need not hold the supplied
  day. \<open>dateComponentsFromAllDay\<close> parses the string with a formatter fixed to UTC and takes
  year, month and day of that instant in the current calendar, whose zone is the machine's.
  On a machine eight hours west of UTC, a creation and an update that supply the timed date
  2024-03-10T09:00:00Z and the all-day date 2024-03-05 store the components year 2024,
  month 3, day 4 (without hour, minute and second): the day before the one supplied. With
  the calendar in UTC the same creation stores day 5.
\<close>

theorem all_day_value_shifted_west_of_utc:
  "cp_dueDate createBothDates = Some ''2024-03-10T09:00:00Z''
   \<and> cp_allDayDueDate createBothDates = Some ''2024-03-05''
   \<and> up_dueDate updateBothDates = Some ''2024-03-10T09:00:00Z''
   \<and> up_allDayDueDate updateBothDates = Some ''2024-03-05''
   \<and> allDayValue ''2024-03-05'' = Some (2024, 3, 5)
   \<and> allDayDateFormatter_date westFoundation ''2024-03-05'' = Some 1709596800000
   \<and> calendar_dateComponents westFoundation 1709596800000 = (2024, 3, 4, 16, 0, 0)
   \<and> fst (operationCreateReminder westFoundation exampleStore createBothDates) = Inr ''id-4''
   \<and> dueDateComponents
        (last (reminders (snd (operationCreateReminder westFoundation exampleStore
                                 createBothDates))))
       = Some \<lparr>year = Some 2024, month = Some 3, day = Some 4,
                hour = None, minute = None, second = None\<rparr>
   \<and> fst (operationUpdateReminder westFoundation exampleStore updateBothDates) = Inr EmptyResult
   \<and> dueDateComponents
        (hd (reminders (snd (operationUpdateReminder westFoundation exampleStore
                               updateBothDates))))
       = Some \<lparr>year = Some 2024, month = Some 3, day = Some 4,
                hour = None, minute = None, second = None\<rparr>
   \<and> dueDateComponents
        (last (reminders (snd (operationCreateReminder exampleFoundation exampleStore
                                 createBothDates))))
       = Some \<lparr>year = Some 2024, month = Some 3, day = Some 5,
                hour = None, minute = None, second = None\<rparr>"
  by code_simp

text \<open>
  C9. When a creation or an update that supplies \<open>remindMeDate\<close> succeeds (so the string
  parses), the alarms of the reminder written to the store are exactly one absolute alarm
  at the parsed date; whatever alarms the reminder had before are replaced, and the
  notification date read back from it is that date.
\<close>

theorem remindMeDate_replaces_alarms:
  "(operationCreateReminder F store cp = (Inr ident, store')
      \<and> cp_remindMeDate cp = Some s \<longrightarrow>
      (\<exists>new t. reminders store' = reminders store @ [new]
         \<and> calendarItemIdentifier new = ident
         \<and> parseISODate F s = Some t
         \<and> alarms new = Some [EKAlarm_absoluteDate t]
         \<and> remindMeDate new = Some t))
   \<and> (operationUpdateReminder F store up = (Inr res, store'')
      \<and> up_remindMeDate up = Some s \<longrightarrow>
      (\<exists>old new t. locateReminderByName F store (up_listName up) (up_reminderName up) = Inr old
         \<and> reminders store'' = replaceFirst old new (reminders store)
         \<and> new \<in> set (reminders store'')
         \<and> parseISODate F s = Some t
         \<and> alarms new = Some [EKAlarm_absoluteDate t]
         \<and> remindMeDate new = Some t))"
proof (intro conjI impI)
  assume h: "operationCreateReminder F store cp = (Inr ident, store')
      \<and> cp_remindMeDate cp = Some s"
  from h operationCreateReminder_success [of F store cp ident store']
  obtain cal new where new: "createdReminder F cal cp = Inr new"
    "calendarItemIdentifier new = ident"
    "store' = store\<lparr>reminders := reminders store @ [new]\<rparr>"
    by blast
  from createdReminder_steps [OF new(1)] h
  obtain r3 r4 where s:
    "assignRemindMeDate F (Some s) r3 = Inr r4"
    "new = (case cp_priority cp of None \<Rightarrow> r4 | Some q \<Rightarrow> r4\<lparr>priority := q\<rparr>)"
    by auto
  from assignRemindMeDate_Some [OF s(1)]
  obtain t where t: "parseISODate F s = Some t" "alarms r4 = Some [EKAlarm_absoluteDate t]"
    by blast
  with s(2) have a: "alarms new = Some [EKAlarm_absoluteDate t]"
    by (simp split: option.splits)
  then have "remindMeDate new = Some t"
    by (simp add: remindMeDate_def List.map_filter_simps)
  with new t a
  show "\<exists>new t. reminders store' = reminders store @ [new]
         \<and> calendarItemIdentifier new = ident
         \<and> parseISODate F s = Some t
         \<and> alarms new = Some [EKAlarm_absoluteDate t]
         \<and> remindMeDate new = Some t"
    by auto
next
  assume h: "operationUpdateReminder F store up = (Inr res, store'')
      \<and> up_remindMeDate up = Some s"
  from h operationUpdateReminder_success [of F store up res store'']
  obtain old new where new:
    "locateReminderByName F store (up_listName up) (up_reminderName up) = Inr old"
    "updatedReminder F up old = Inr new"
    "store'' = store\<lparr>reminders := replaceFirst old new (reminders store)\<rparr>"
    by blast
  from updatedReminder_steps [OF new(2)] h
  obtain r3 r4 where s:
    "assignRemindMeDate F (Some s) r3 = Inr r4"
    "new = (case up_completed up of
              None \<Rightarrow> (case up_priority up of None \<Rightarrow> r4 | Some q \<Rightarrow> r4\<lparr>priority := q\<rparr>)
            | Some c \<Rightarrow> (case up_priority up of None \<Rightarrow> r4 | Some q \<Rightarrow> r4\<lparr>priority := q\<rparr>)
                \<lparr>isCompleted := c, completionDate := (if c then Some (currentDate F) else None)\<rparr>)"
    by auto
  from assignRemindMeDate_Some [OF s(1)]
  obtain t where t: "parseISODate F s = Some t" "alarms r4 = Some [EKAlarm_absoluteDate t]"
    by blast
  with s(2) have a: "alarms new = Some [EKAlarm_absoluteDate t]"
    by (simp split: option.splits)
  then have r: "remindMeDate new = Some t"
    by (simp add: remindMeDate_def List.map_filter_simps)
  from locateReminderByName_found [OF new(1)] new(3)
  have m: "new \<in> set (reminders store'')" by (simp add: replaceFirst_mem)
  from new t a r m
  show "\<exists>old new t. locateReminderByName F store (up_listName up) (up_reminderName up) = Inr old
         \<and> reminders store'' = replaceFirst old new (reminders store)
         \<and> new \<in> set (reminders store'')
         \<and> parseISODate F s = Some t
         \<and> alarms new = Some [EKAlarm_absoluteDate t]
         \<and> remindMeDate new = Some t"
    by auto
qed

theorem remindMeDate_replaces_alarms_witness:
  "fst (operationCreateReminder exampleFoundation exampleStore createBothDates) = Inr ''id-4''
   \<and> (\<exists>new. reminders (snd (operationCreateReminder exampleFoundation exampleStore createBothDates))
                = reminders exampleStore @ [new]
         \<and> alarms new = Some [EKAlarm_absoluteDate 1710061200000])
   \<and> fst (operationUpdateReminder exampleFoundation exampleStore updateBothDates) = Inr EmptyResult
   \<and> alarms callUndated
       = Some [EKAlarm_relativeOffset (- 600), EKAlarm_absoluteDate 1710000000000]
   \<and> (\<exists>new. reminders (snd (operationUpdateReminder exampleFoundation exampleStore updateBothDates))
                = replaceFirst callUndated new (reminders exampleStore)
         \<and> alarms new = Some [EKAlarm_absoluteDate 1710061200000])"
proof -
  have c1: "fst (operationCreateReminder exampleFoundation exampleStore createBothDates)
      = Inr ''id-4''"
    by code_simp
  have u1: "fst (operationUpdateReminder exampleFoundation exampleStore updateBothDates)
      = Inr EmptyResult"
    by code_simp
  have c2: "operationCreateReminder exampleFoundation exampleStore createBothDates
      = (Inr ''id-4'', snd (operationCreateReminder exampleFoundation exampleStore createBothDates))"
    using c1 by (simp add: prod_eq_iff)
  have u2: "operationUpdateReminder exampleFoundation exampleStore updateBothDates
      = (Inr EmptyResult,
         snd (operationUpdateReminder exampleFoundation exampleStore updateBothDates))"
    using u1 by (simp add: prod_eq_iff)
  have f: "cp_remindMeDate createBothDates = Some ''2024-03-10T09:00:00.000Z''"
    "up_remindMeDate updateBothDates = Some ''2024-03-10T09:00:00.000Z''"
    by (simp_all add: createBothDates_def updateBothDates_def)
  have p: "parseISODate exampleFoundation ''2024-03-10T09:00:00.000Z'' = Some 1710061200000"
    by code_simp
  have l: "locateReminderByName exampleFoundation exampleStore
      (up_listName updateBothDates) (up_reminderName updateBothDates) = Inr callUndated"
    by code_simp
  have a: "alarms callUndated
      = Some [EKAlarm_relativeOffset (- 600), EKAlarm_absoluteDate 1710000000000]"
    by (simp add: callUndated_def)
  from remindMeDate_replaces_alarms
    [of exampleFoundation exampleStore createBothDates "''id-4''"
        "snd (operationCreateReminder exampleFoundation exampleStore createBothDates)"
        "''2024-03-10T09:00:00.000Z''" updateBothDates EmptyResult
        "snd (operationUpdateReminder exampleFoundation exampleStore updateBothDates)"]
    c2 u2 f p l
  have "(\<exists>new. reminders (snd (operationCreateReminder exampleFoundation exampleStore createBothDates))
                = reminders exampleStore @ [new]
         \<and> alarms new = Some [EKAlarm_absoluteDate 1710061200000])"
    and "(\<exists>new. reminders (snd (operationUpdateReminder exampleFoundation exampleStore updateBothDates))
                = replaceFirst callUndated new (reminders exampleStore)
         \<and> alarms new = Some [EKAlarm_absoluteDate 1710061200000])"
    by auto
  with c1 u1 a show ?thesis by blast
qed


text \<open>
  C10. A successful update writes to the store the located reminder with only the fields
  changed whose payload field is present: the title follows \<open>newName\<close>, the notes \<open>body\<close>,
  the due-date components stay when neither \<open>dueDate\<close> nor \<open>allDayDueDate\<close> is given, the
  alarms stay when \<open>remindMeDate\<close> is absent, the priority follows \<open>priority\<close>, and the
  completion flag and date stay when \<open>completed\<close> is absent, the date being the current
  time for \<open>true\<close> and cleared for \<open>false\<close>. Identifier, creation and modification date
  and list are never assigned.
\<close>

theorem update_keeps_absent_fields:
  "operationUpdateReminder F store p = (Inr res, store') \<longrightarrow>
   (\<exists>old new. locateReminderByName F store (up_listName p) (up_reminderName p) = Inr old
      \<and> store' = store\<lparr>reminders := replaceFirst old new (reminders store)\<rparr>
      \<and> title new = (case up_newName p of None \<Rightarrow> title old | Some n \<Rightarrow> n)
      \<and> notesText new = (case up_body p of None \<Rightarrow> notesText old | Some b \<Rightarrow> Some b)
      \<and> (up_dueDate p = None \<and> up_allDayDueDate p = None \<longrightarrow>
            dueDateComponents new = dueDateComponents old)
      \<and> (up_remindMeDate p = None \<longrightarrow> alarms new = alarms old)
      \<and> priority new = (case up_priority p of None \<Rightarrow> priority old | Some q \<Rightarrow> q)
      \<and> isCompleted new = (case up_completed p of None \<Rightarrow> isCompleted old | Some c \<Rightarrow> c)
      \<and> completionDate new =
          (case up_completed p of
             None \<Rightarrow> completionDate old
           | Some c \<Rightarrow> if c then Some (currentDate F) else None)
      \<and> calendarItemIdentifier new = calendarItemIdentifier old
      \<and> creationDate new = creationDate old
      \<and> lastModifiedDate new = lastModifiedDate old
      \<and> calendar new = calendar old)"
proof
  assume h: "operationUpdateReminder F store p = (Inr res, store')"
  from operationUpdateReminder_success [OF h]
  obtain old new where new:
    "locateReminderByName F store (up_listName p) (up_reminderName p) = Inr old"
    "updatedReminder F p old = Inr new"
    "store' = store\<lparr>reminders := replaceFirst old new (reminders store)\<rparr>"
    by blast
  define r1 where "r1 = (case up_body p of
          None \<Rightarrow> (case up_newName p of None \<Rightarrow> old | Some n \<Rightarrow> old\<lparr>title := n\<rparr>)
        | Some b \<Rightarrow> (case up_newName p of None \<Rightarrow> old | Some n \<Rightarrow> old\<lparr>title := n\<rparr>)\<lparr>notesText := Some b\<rparr>)"
  from updatedReminder_steps [OF new(2)]
  obtain r2 r3 r4 where s:
    "assignDueDate F (up_dueDate p) r1 = Inr r2"
    "assignAllDayDueDate F (up_allDayDueDate p) r2 = Inr r3"
    "assignRemindMeDate F (up_remindMeDate p) r3 = Inr r4"
    "new = (case up_completed p of
              None \<Rightarrow> (case up_priority p of None \<Rightarrow> r4 | Some q \<Rightarrow> r4\<lparr>priority := q\<rparr>)
            | Some c \<Rightarrow> (case up_priority p of None \<Rightarrow> r4 | Some q \<Rightarrow> r4\<lparr>priority := q\<rparr>)
                \<lparr>isCompleted := c, completionDate := (if c then Some (currentDate F) else None)\<rparr>)"
    unfolding r1_def by blast
  note f2 = assignDueDate_fields [OF s(1)]
  note f3 = assignAllDayDueDate_fields [OF s(2)]
  note f4 = assignRemindMeDate_fields [OF s(3)]
  have t: "title new = (case up_newName p of None \<Rightarrow> title old | Some n \<Rightarrow> n)"
    using f2 f3 f4 by (simp add: s(4) r1_def split: option.splits)
  have n: "notesText new = (case up_body p of None \<Rightarrow> notesText old | Some b \<Rightarrow> Some b)"
    using f2 f3 f4 by (simp add: s(4) r1_def split: option.splits)
  have d: "up_dueDate p = None \<and> up_allDayDueDate p = None \<longrightarrow>
            dueDateComponents new = dueDateComponents old"
    using f2 f3 f4 by (simp add: s(4) r1_def split: option.splits)
  have a: "up_remindMeDate p = None \<longrightarrow> alarms new = alarms old"
    using f2 f3 f4 by (simp add: s(4) r1_def split: option.splits)
  have q: "priority new = (case up_priority p of None \<Rightarrow> priority old | Some q \<Rightarrow> q)"
    using f2 f3 f4 by (simp add: s(4) r1_def split: option.splits)
  have c: "isCompleted new = (case up_completed p of None \<Rightarrow> isCompleted old | Some c \<Rightarrow> c)"
    using f2 f3 f4 by (simp add: s(4) r1_def split: option.splits)
  have cd: "completionDate new =
          (case up_completed p of
             None \<Rightarrow> completionDate old
           | Some c \<Rightarrow> if c then Some (currentDate F) else None)"
    using f2 f3 f4 by (simp add: s(4) r1_def split: option.splits)
  have o: "calendarItemIdentifier new = calendarItemIdentifier old
      \<and> creationDate new = creationDate old
      \<and> lastModifiedDate new = lastModifiedDate old
      \<and> calendar new = calendar old"
    using f2 f3 f4 by (simp add: s(4) r1_def split: option.splits)
  show "\<exists>old new. locateReminderByName F store (up_listName p) (up_reminderName p) = Inr old
      \<and> store' = store\<lparr>reminders := replaceFirst old new (reminders store)\<rparr>
      \<and> title new = (case up_newName p of None \<Rightarrow> title old | Some n \<Rightarrow> n)
      \<and> notesText new = (case up_body p of None \<Rightarrow> notesText old | Some b \<Rightarrow> Some b)
      \<and> (up_dueDate p = None \<and> up_allDayDueDate p = None \<longrightarrow>
            dueDateComponents new = dueDateComponents old)
      \<and> (up_remindMeDate p = None \<longrightarrow> alarms new = alarms old)
      \<and> priority new = (case up_priority p of None \<Rightarrow> priority old | Some q \<Rightarrow> q)
      \<and> isCompleted new = (case up_completed p of None \<Rightarrow> isCompleted old | Some c \<Rightarrow> c)
      \<and> completionDate new =
          (case up_completed p of
             None \<Rightarrow> completionDate old
           | Some c \<Rightarrow> if c then Some (currentDate F) else None)
      \<and> calendarItemIdentifier new = calendarItemIdentifier old
      \<and> creationDate new = creationDate old
      \<and> lastModifiedDate new = lastModifiedDate old
      \<and> calendar new = calendar old"
    by (rule exI [of _ old], rule exI [of _ new])
      (use new(1) new(3) t n d a q c cd o in simp)
qed

theorem update_keeps_absent_fields_witness:
  "fst (operationUpdateReminder exampleFoundation exampleStore updateCompleted) = Inr EmptyResult
   \<and> (\<exists>new. snd (operationUpdateReminder exampleFoundation exampleStore updateCompleted)
              = exampleStore\<lparr>reminders := replaceFirst callUndated new (reminders exampleStore)\<rparr>
        \<and> title new = title callUndated
        \<and> notesText new = notesText callUndated
        \<and> dueDateComponents new = dueDateComponents callUndated
        \<and> alarms new = alarms callUndated
        \<and> priority new = priority callUndated
        \<and> isCompleted new
        \<and> completionDate new = Some (currentDate exampleFoundation))"
proof -
  have u1: "fst (operationUpdateReminder exampleFoundation exampleStore updateCompleted)
      = Inr EmptyResult"
    by code_simp
  have u2: "operationUpdateReminder exampleFoundation exampleStore updateCompleted
      = (Inr EmptyResult,
         snd (operationUpdateReminder exampleFoundation exampleStore updateCompleted))"
    using u1 by (simp add: prod_eq_iff)
  have l: "locateReminderByName exampleFoundation exampleStore
      (up_listName updateCompleted) (up_reminderName updateCompleted) = Inr callUndated"
    by code_simp
  have f: "up_newName updateCompleted = None" "up_body updateCompleted = None"
    "up_dueDate updateCompleted = None" "up_allDayDueDate updateCompleted = None"
    "up_remindMeDate updateCompleted = None" "up_priority updateCompleted = None"
    "up_completed updateCompleted = Some True"
    by (simp_all add: updateCompleted_def)
  from update_keeps_absent_fields
    [of exampleFoundation exampleStore updateCompleted EmptyResult
        "snd (operationUpdateReminder exampleFoundation exampleStore updateCompleted)"]
    u2 l f
  have "\<exists>new. snd (operationUpdateReminder exampleFoundation exampleStore updateCompleted)
              = exampleStore\<lparr>reminders := replaceFirst callUndated new (reminders exampleStore)\<rparr>
        \<and> title new = title callUndated
        \<and> notesText new = notesText callUndated
        \<and> dueDateComponents new = dueDateComponents callUndated
        \<and> alarms new = alarms callUndated
        \<and> priority new = priority callUndated
        \<and> isCompleted new
        \<and> completionDate new = Some (currentDate exampleFoundation)"
    by auto
  with u1 show ?thesis by blast
qed

section \<open>Looking a reminder up by name\<close>

lemma find_SomeD2: "find P xs = Some x \<Longrightarrow> \<exists>pre post. xs = pre @ x # post \<and> P x \<and> (\<forall>y\<in>set pre. \<not> P y)"
proof (induction xs)
  case Nil
  then show ?case by simp
next
  case (Cons a xs)
  show ?case
  proof (cases "P a")
    case True
    with Cons.prems have "x = a" by simp
    with True show ?thesis by (intro exI [of _ "[]"] exI [of _ xs]) simp
  next
    case False
    with Cons obtain pre post where "xs = pre @ x # post" "P x" "\<forall>y\<in>set pre. \<not> P y"
      by auto
    with False show ?thesis by (intro exI [of _ "a # pre"] exI [of _ post]) simp
  qed
qed

lemma locateReminderByName_first:
  "locateReminderByName F store lname rname = Inr r \<Longrightarrow>
   \<exists>pre post. filteredReminders store (Some lname) None = pre @ r # post
     \<and> title r = rname \<and> (\<forall>y\<in>set pre. title y \<noteq> rname)"
proof -
  assume h: "locateReminderByName F store lname rname = Inr r"
  then obtain cal where cal: "calendarByName lname (calendars store) = Some cal"
    by (auto simp: locateReminderByName_def allReminderCalendars_def split: option.splits)
  with h have f: "find (\<lambda>r. title r = rname) (filter (\<lambda>r. calendar r \<in> set [cal]) (reminders store)) = Some r"
    by (auto simp: locateReminderByName_def allReminderCalendars_def fetchReminders_def
        split: option.splits if_splits)
  have "filteredReminders store (Some lname) None = filter (\<lambda>r. calendar r \<in> set [cal]) (reminders store)"
    using cal by (auto simp: filteredReminders_def filterCompleted_def intro!: filter_cong)
  with find_SomeD2 [OF f] show ?thesis by simp
qed

text \<open>
  C6, as the helper has it. \<open>locateReminderByName\<close> does not sort: the reminder it returns,
  which update and delete then operate on, is the first one with the given name in the
  order in which the store returns the reminders of the list. Of several reminders with
  the same name the one chosen is therefore the first in store order, whatever their due
  dates.
\<close>

theorem lookup_first_in_store_order:
  "(locateReminderByName F store lname rname = Inr r \<longrightarrow>
      (\<exists>pre post. filteredReminders store (Some lname) None = pre @ r # post
         \<and> title r = rname \<and> (\<forall>y\<in>set pre. title y \<noteq> rname)))
   \<and> (operationUpdateReminder F store up = (Inr res, store') \<longrightarrow>
      (\<exists>old new. locateReminderByName F store (up_listName up) (up_reminderName up) = Inr old
         \<and> updatedReminder F up old = Inr new
         \<and> store' = store\<lparr>reminders := replaceFirst old new (reminders store)\<rparr>))
   \<and> (operationDeleteReminder F store dp = (Inr res, store'') \<longrightarrow>
      (\<exists>old. locateReminderByName F store (dp_listName dp) (dp_reminderName dp) = Inr old
         \<and> store'' = store\<lparr>reminders := remove1 old (reminders store)\<rparr>))"
proof (intro conjI impI)
  assume "locateReminderByName F store lname rname = Inr r"
  then show "\<exists>pre post. filteredReminders store (Some lname) None = pre @ r # post
         \<and> title r = rname \<and> (\<forall>y\<in>set pre. title y \<noteq> rname)"
    by (rule locateReminderByName_first)
next
  assume "operationUpdateReminder F store up = (Inr res, store')"
  then show "\<exists>old new. locateReminderByName F store (up_listName up) (up_reminderName up) = Inr old
         \<and> updatedReminder F up old = Inr new
         \<and> store' = store\<lparr>reminders := replaceFirst old new (reminders store)\<rparr>"
    by (rule operationUpdateReminder_success)
next
  assume "operationDeleteReminder F store dp = (Inr res, store'')"
  then show "\<exists>old. locateReminderByName F store (dp_listName dp) (dp_reminderName dp) = Inr old
         \<and> store'' = store\<lparr>reminders := remove1 old (reminders store)\<rparr>"
    by (auto simp: operationDeleteReminder_def split: sum.splits option.splits)
qed

theorem lookup_first_in_store_order_witness:
  "locateReminderByName exampleFoundation exampleStore ''Work'' ''Call'' = Inr callUndated
   \<and> (\<exists>pre post. filteredReminders exampleStore (Some ''Work'') None = pre @ callUndated # post
         \<and> (\<forall>y\<in>set pre. title y \<noteq> ''Call''))
   \<and> (\<exists>new. snd (operationUpdateReminder exampleFoundation exampleStore updateCompleted)
               = exampleStore\<lparr>reminders := replaceFirst callUndated new (reminders exampleStore)\<rparr>)
   \<and> snd (operationDeleteReminder exampleFoundation exampleStore deleteCall)
       = exampleStore\<lparr>reminders := remove1 callUndated (reminders exampleStore)\<rparr>"
proof -
  have l: "locateReminderByName exampleFoundation exampleStore ''Work'' ''Call'' = Inr callUndated"
    by code_simp
  have l1: "locateReminderByName exampleFoundation exampleStore
      (up_listName updateCompleted) (up_reminderName updateCompleted) = Inr callUndated"
    by code_simp
  have l2: "locateReminderByName exampleFoundation exampleStore
      (dp_listName deleteCall) (dp_reminderName deleteCall) = Inr callUndated"
    by code_simp
  have u1: "fst (operationUpdateReminder exampleFoundation exampleStore updateCompleted)
      = Inr EmptyResult"
    by code_simp
  have u2: "operationUpdateReminder exampleFoundation exampleStore updateCompleted
      = (Inr EmptyResult,
         snd (operationUpdateReminder exampleFoundation exampleStore updateCompleted))"
    using u1 by (simp add: prod_eq_iff)
  have d1: "fst (operationDeleteReminder exampleFoundation exampleStore deleteCall)
      = Inr EmptyResult"
    by code_simp
  have d2: "operationDeleteReminder exampleFoundation exampleStore deleteCall
      = (Inr EmptyResult,
         snd (operationDeleteReminder exampleFoundation exampleStore deleteCall))"
    using d1 by (simp add: prod_eq_iff)
  from lookup_first_in_store_order
    [of exampleFoundation exampleStore "''Work''" "''Call''" callUndated
        updateCompleted EmptyResult
        "snd (operationUpdateReminder exampleFoundation exampleStore updateCompleted)"
        deleteCall
        "snd (operationDeleteReminder exampleFoundation exampleStore deleteCall)"]
    l l1 l2 u2 d2
  have "\<exists>pre post. filteredReminders exampleStore (Some ''Work'') None = pre @ callUndated # post
         \<and> (\<forall>y\<in>set pre. title y \<noteq> ''Call'')"
    and "\<exists>new. snd (operationUpdateReminder exampleFoundation exampleStore updateCompleted)
               = exampleStore\<lparr>reminders := replaceFirst callUndated new (reminders exampleStore)\<rparr>"
    and "snd (operationDeleteReminder exampleFoundation exampleStore deleteCall)
       = exampleStore\<lparr>reminders := remove1 callUndated (reminders exampleStore)\<rparr>"
    by auto
  with l show ?thesis by blast
qed

text \<open>
  C6 as stated fails: in the example store the list "Work" has two reminders named "Call",
  the undated one first in store order and the dated one first in the canonical sort
  order. Deleting "Call" removes the undated one, and the update marks the undated one as
  completed.
\<close>

theorem lookup_not_first_in_canonical_order:
  "firstInCanonicalOrder exampleFoundation exampleStore ''Work'' ''Call'' = Some callDated
   \<and> operationDeleteReminder exampleFoundation exampleStore deleteCall
       = (Inr EmptyResult, exampleStore\<lparr>reminders := [callDated, reportAllDay]\<rparr>)
   \<and> fst (operationUpdateReminder exampleFoundation exampleStore updateCompleted) = Inr EmptyResult
   \<and> reminders (snd (operationUpdateReminder exampleFoundation exampleStore updateCompleted))
       = [callUndated\<lparr>isCompleted := True, completionDate := Some 1711000000000\<rparr>,
          callDated, reportAllDay]
   \<and> callDated \<noteq> callUndated"
  by code_simp

section \<open>The envelope codec\<close>

lemma sublist_quoted: "sublist s (pre @ quoted s @ post)"
proof -
  have "pre @ quoted s @ post = (pre @ [CHR 0x27]) @ s @ ([CHR 0x27] @ post)"
    by (simp add: quoted_def)
  then show ?thesis by (metis sublist_appendI)
qed

lemma sublist_quoted_end: "sublist s (pre @ quoted s)"
  using sublist_quoted [of s pre "[]"] by simp

lemma sublist_suffix: "sublist m (pre @ m)"
  using sublist_appendI [of m pre "[]"] by simp

lemma generic_mentions:
  "sublist op (errMessage (newError (''EventKit operation '' @ quoted op @ '' failed: '' @ d)))"
  using sublist_quoted [of op "''EventKit operation ''" "'' failed: '' @ d"]
  by (simp add: newError_def)

lemma parseEnvelope_unusable:
  "trim out = [] \<or> JSON_parse N (trim out) = None \<Longrightarrow>
   \<exists>e. parseEnvelope N out op = Inl e \<and> sublist op (errMessage e) \<and> errStdout e = None"
proof (cases "trim out = []")
  case True
  then show ?thesis
    using sublist_quoted_end [of op "''EventKit helper returned empty response for operation ''"]
    by (simp add: parseEnvelope_def newError_def)
next
  case False
  assume "trim out = [] \<or> JSON_parse N (trim out) = None"
  with False have "JSON_parse N (trim out) = None" by simp
  with False show ?thesis
    using sublist_quoted [of op "''Failed to parse EventKit helper response for ''" "'': '' @ trim out"]
    by (simp add: parseEnvelope_def newError_def Let_def)
qed

lemma parseEnvelope_failure:
  "trim out \<noteq> [] \<Longrightarrow> JSON_parse N (trim out) = Some (JObject kvs) \<Longrightarrow>
   map_of kvs ''ok'' = Some (JBool False) \<Longrightarrow> map_of kvs ''error'' = Some (JString m) \<Longrightarrow>
   parseEnvelope N out op
     = Inl (newError (if m = [] then ''EventKit helper failed for operation '' @ quoted op else m))"
  by (simp add: parseEnvelope_def property_def truthy_def messageOf_def Let_def)

lemma runHelper_Fulfilled_Inl:
  "parseEnvelope N out op = Inl e \<Longrightarrow> errStdout e = None \<Longrightarrow>
   runHelper N op (Fulfilled out)
     = Inl (newError (''EventKit operation '' @ quoted op @ '' failed: '' @ failureDetails e))"
  by (simp add: runHelper_def)

lemma runHelper_Rejected_stdout:
  "errStdout err = Some out \<Longrightarrow> trim out \<noteq> [] \<Longrightarrow>
   runHelper N op (Rejected err)
     = (case parseEnvelope N out op of
          Inr v \<Rightarrow> Inr v
        | Inl e \<Rightarrow> Inl (newError (errMessage e)))"
  by (simp add: runHelper_def)

lemma runHelper_Rejected_fallback:
  "errStdout err = None \<or> (errStdout err = Some out \<and> trim out = []) \<Longrightarrow>
   runHelper N op (Rejected err)
     = Inl (newError (''EventKit operation '' @ quoted op @ '' failed: '' @ failureDetails err))"
  by (auto simp: runHelper_def)


text \<open>
  C7. For every outcome of the helper process: a standard output that is empty (after
  trimming) or that is not JSON yields an error whose message contains the operation name,
  for a process that exited with status 0 and for one that was rejected, with or without
  output; an envelope whose \<open>ok\<close> is \<open>false\<close> yields an error that carries the envelope's
  error message (the message itself after a rejection, the message inside the failure text
  after exit status 0); after a rejection with non-empty output \<open>runHelper\<close> returns what
  \<open>parseEnvelope\<close> makes of that output, and it falls back to the generic failure message
  exactly when the rejection carries no output or only white space.
\<close>

theorem gateway_error_handling:
  "(trim out = [] \<or> JSON_parse N (trim out) = None \<longrightarrow>
      (\<exists>e. runHelper N op (Fulfilled out) = Inl e \<and> sublist op (errMessage e))
      \<and> (\<exists>e. runHelper N op (Rejected (err\<lparr>errStdout := Some out\<rparr>)) = Inl e
            \<and> sublist op (errMessage e)))
   \<and> (\<exists>e. runHelper N op (Rejected (err\<lparr>errStdout := None\<rparr>)) = Inl e
         \<and> sublist op (errMessage e))
   \<and> (trim out \<noteq> [] \<and> JSON_parse N (trim out) = Some (JObject kvs)
        \<and> map_of kvs ''ok'' = Some (JBool False) \<and> map_of kvs ''error'' = Some (JString m) \<longrightarrow>
      runHelper N op (Rejected (err\<lparr>errStdout := Some out\<rparr>))
        = Inl (newError (if m = [] then ''EventKit helper failed for operation '' @ quoted op
                         else m))
      \<and> (\<exists>e. runHelper N op (Fulfilled out) = Inl e \<and> sublist m (errMessage e)))
   \<and> (errStdout err = Some out \<and> trim out \<noteq> [] \<longrightarrow>
      runHelper N op (Rejected err)
        = (case parseEnvelope N out op of
             Inr v \<Rightarrow> Inr v
           | Inl e \<Rightarrow> Inl (newError (errMessage e))))
   \<and> (errStdout err = None \<or> (errStdout err = Some out \<and> trim out = []) \<longrightarrow>
      runHelper N op (Rejected err)
        = Inl (newError (''EventKit operation '' @ quoted op @ '' failed: ''
                         @ failureDetails err)))"
proof (intro conjI impI)
  assume h: "trim out = [] \<or> JSON_parse N (trim out) = None"
  from parseEnvelope_unusable [OF h, of op]
  obtain e where e: "parseEnvelope N out op = Inl e" "sublist op (errMessage e)"
    "errStdout e = None"
    by blast
  from runHelper_Fulfilled_Inl [OF e(1) e(3)] generic_mentions [of op "failureDetails e"]
  show "\<exists>e. runHelper N op (Fulfilled out) = Inl e \<and> sublist op (errMessage e)"
    by simp
  show "\<exists>e. runHelper N op (Rejected (err\<lparr>errStdout := Some out\<rparr>)) = Inl e
            \<and> sublist op (errMessage e)"
  proof (cases "trim out = []")
    case True
    with runHelper_Rejected_fallback [of "err\<lparr>errStdout := Some out\<rparr>" out N op]
      generic_mentions [of op "failureDetails (err\<lparr>errStdout := Some out\<rparr>)"]
    show ?thesis by simp
  next
    case False
    with runHelper_Rejected_stdout [of "err\<lparr>errStdout := Some out\<rparr>" out N op] e
    show ?thesis by (simp add: newError_def)
  qed
next
  from runHelper_Rejected_fallback [of "err\<lparr>errStdout := None\<rparr>" out N op]
    generic_mentions [of op "failureDetails (err\<lparr>errStdout := None\<rparr>)"]
  show "\<exists>e. runHelper N op (Rejected (err\<lparr>errStdout := None\<rparr>)) = Inl e
         \<and> sublist op (errMessage e)"
    by simp
next
  assume h: "trim out \<noteq> [] \<and> JSON_parse N (trim out) = Some (JObject kvs)
        \<and> map_of kvs ''ok'' = Some (JBool False) \<and> map_of kvs ''error'' = Some (JString m)"
  then have p: "parseEnvelope N out op
     = Inl (newError (if m = [] then ''EventKit helper failed for operation '' @ quoted op else m))"
    by (simp add: parseEnvelope_failure)
  from h p runHelper_Rejected_stdout [of "err\<lparr>errStdout := Some out\<rparr>" out N op]
  show "runHelper N op (Rejected (err\<lparr>errStdout := Some out\<rparr>))
        = Inl (newError (if m = [] then ''EventKit helper failed for operation '' @ quoted op
                         else m))"
    by (simp add: newError_def)
  have "runHelper N op (Fulfilled out)
     = Inl (newError (''EventKit operation '' @ quoted op @ '' failed: ''
            @ (if m = [] then ''EventKit helper failed for operation '' @ quoted op else m)))"
    using runHelper_Fulfilled_Inl [OF p] by (simp add: newError_def failureDetails_def)
  moreover have "sublist m (''EventKit operation '' @ quoted op @ '' failed: ''
            @ (if m = [] then ''EventKit helper failed for operation '' @ quoted op else m))"
    using sublist_suffix [of m "''EventKit operation '' @ quoted op @ '' failed: ''"]
    by (cases "m = []") simp_all
  ultimately show "\<exists>e. runHelper N op (Fulfilled out) = Inl e \<and> sublist m (errMessage e)"
    by (simp add: newError_def)
next
  assume "errStdout err = Some out \<and> trim out \<noteq> []"
  then show "runHelper N op (Rejected err)
        = (case parseEnvelope N out op of
             Inr v \<Rightarrow> Inr v
           | Inl e \<Rightarrow> Inl (newError (errMessage e)))"
    by (simp add: runHelper_Rejected_stdout)
next
  assume "errStdout err = None \<or> (errStdout err = Some out \<and> trim out = [])"
  then show "runHelper N op (Rejected err)
        = Inl (newError (''EventKit operation '' @ quoted op @ '' failed: ''
                         @ failureDetails err))"
    by (rule runHelper_Rejected_fallback)
qed


theorem gateway_error_handling_witness:
  "(\<exists>e. runHelper exampleNode ''updateReminder'' (Fulfilled ''Segmentation fault'') = Inl e
        \<and> sublist ''updateReminder'' (errMessage e))
   \<and> runHelper exampleNode ''updateReminder'' (Rejected rejectionWithEnvelope)
       = Inl (newError ''No updates provided'')
   \<and> (\<exists>e. runHelper exampleNode ''updateReminder'' (Fulfilled (errorEnvelopeText @ [CHR 0x0A]))
             = Inl e
         \<and> sublist ''No updates provided'' (errMessage e))
   \<and> runHelper exampleNode ''updateReminder'' (Rejected rejectionWithoutOutput)
       = Inl (newError (''EventKit operation '' @ quoted ''updateReminder''
                        @ '' failed: Command failed''))
   \<and> runHelper exampleNode ''updateReminder'' (Rejected nbspRejection)
       = Inl (newError (''EventKit operation '' @ quoted ''updateReminder''
                        @ '' failed: Command failed''))"
proof -
  have t1: "trim ''Segmentation fault'' = [] \<or>
      JSON_parse exampleNode (trim ''Segmentation fault'') = None"
    by code_simp
  have t2: "trim (errorEnvelopeText @ [CHR 0x0A]) \<noteq> []"
    by code_simp
  have t3: "JSON_parse exampleNode (trim (errorEnvelopeText @ [CHR 0x0A]))
      = Some (JObject [(''ok'', JBool False), (''error'', JString ''No updates provided'')])"
    by code_simp
  have t4: "map_of [(''ok'', JBool False), (''error'', JString ''No updates provided'')] ''ok''
      = Some (JBool False)"
    "map_of [(''ok'', JBool False), (''error'', JString ''No updates provided'')] ''error''
      = Some (JString ''No updates provided'')"
    by simp_all
  have t5: "rejectionWithEnvelope\<lparr>errStdout := Some (errorEnvelopeText @ [CHR 0x0A])\<rparr>
      = rejectionWithEnvelope"
    by (simp add: rejectionWithEnvelope_def)
  have t6: "errStdout rejectionWithoutOutput = None"
    "failureDetails rejectionWithoutOutput = ''Command failed''"
    by (simp_all add: rejectionWithoutOutput_def failureDetails_def)
  have t7: "errStdout nbspRejection = Some [CHR 0xA0]" "trim [CHR 0xA0] = []"
    "failureDetails nbspRejection = ''Command failed''"
    by code_simp+
  from gateway_error_handling
    [of "''Segmentation fault''" exampleNode "''updateReminder''" rejectionWithoutOutput
        "[]" "[]"] t1
  have a: "\<exists>e. runHelper exampleNode ''updateReminder'' (Fulfilled ''Segmentation fault'') = Inl e
        \<and> sublist ''updateReminder'' (errMessage e)"
    by blast
  from gateway_error_handling
    [of "errorEnvelopeText @ [CHR 0x0A]" exampleNode "''updateReminder''" rejectionWithEnvelope
        "[(''ok'', JBool False), (''error'', JString ''No updates provided'')]"
        "''No updates provided''"] t2 t3 t4 t5
  have b: "runHelper exampleNode ''updateReminder'' (Rejected rejectionWithEnvelope)
       = Inl (newError ''No updates provided'')"
    and c: "\<exists>e. runHelper exampleNode ''updateReminder'' (Fulfilled (errorEnvelopeText @ [CHR 0x0A]))
             = Inl e
         \<and> sublist ''No updates provided'' (errMessage e)"
    by auto
  from gateway_error_handling
    [of "[]" exampleNode "''updateReminder''" rejectionWithoutOutput "[]" "[]"] t6
  have d: "runHelper exampleNode ''updateReminder'' (Rejected rejectionWithoutOutput)
       = Inl (newError (''EventKit operation '' @ quoted ''updateReminder''
                        @ '' failed: Command failed''))"
    by simp
  from gateway_error_handling
    [of "[CHR 0xA0]" exampleNode "''updateReminder''" nbspRejection "[]" "[]"] t7
  have e: "runHelper exampleNode ''updateReminder'' (Rejected nbspRejection)
       = Inl (newError (''EventKit operation '' @ quoted ''updateReminder''
                        @ '' failed: Command failed''))"
    by simp
  from a b c d e show ?thesis by blast
qed

section \<open>The normalizer\<close>

text \<open>
  C8. \<open>mapReminder\<close> of the service maps a completion, due, all-day or notification
  timestamp that is missing or that the date parser rejects to an absent value, and a
  creation or modification timestamp that is missing or rejected to the current time.
\<close>

theorem timestamps_normalize:
  "(missingOrUnparseable N (hr_completionDate r) \<longrightarrow>
      r_completionDate (mapReminderService N r) = None)
   \<and> (missingOrUnparseable N (hr_dueDate r) \<longrightarrow> r_dueDate (mapReminderService N r) = None)
   \<and> (missingOrUnparseable N (hr_allDayDueDate r) \<longrightarrow>
        r_allDayDueDate (mapReminderService N r) = None)
   \<and> (missingOrUnparseable N (hr_remindMeDate r) \<longrightarrow>
        r_remindMeDate (mapReminderService N r) = None)
   \<and> (missingOrUnparseable N (hr_creationDate r) \<longrightarrow>
        r_creationDate (mapReminderService N r) = Date_now N)
   \<and> (missingOrUnparseable N (hr_modificationDate r) \<longrightarrow>
        r_modificationDate (mapReminderService N r) = Date_now N)"
  by (auto simp: missingOrUnparseable_def mapReminderService_def parseDate_def
      split: option.splits)

theorem timestamps_normalize_witness:
  "missingOrUnparseable exampleNode (hr_completionDate helperReminderNoDates)
   \<and> missingOrUnparseable exampleNode (hr_dueDate helperReminderNoDates)
   \<and> missingOrUnparseable exampleNode (hr_allDayDueDate helperReminderNoDates)
   \<and> missingOrUnparseable exampleNode (hr_remindMeDate helperReminderNoDates)
   \<and> missingOrUnparseable exampleNode (hr_creationDate helperReminderNoDates)
   \<and> missingOrUnparseable exampleNode (hr_modificationDate helperReminderNoDates)
   \<and> r_completionDate (mapReminderService exampleNode helperReminderNoDates) = None
   \<and> r_dueDate (mapReminderService exampleNode helperReminderNoDates) = None
   \<and> r_allDayDueDate (mapReminderService exampleNode helperReminderNoDates) = None
   \<and> r_remindMeDate (mapReminderService exampleNode helperReminderNoDates) = None
   \<and> r_creationDate (mapReminderService exampleNode helperReminderNoDates) = 1711000000000
   \<and> r_modificationDate (mapReminderService exampleNode helperReminderNoDates) = 1711000000000"
proof -
  have h: "missingOrUnparseable exampleNode (hr_completionDate helperReminderNoDates)"
    "missingOrUnparseable exampleNode (hr_dueDate helperReminderNoDates)"
    "missingOrUnparseable exampleNode (hr_allDayDueDate helperReminderNoDates)"
    "missingOrUnparseable exampleNode (hr_remindMeDate helperReminderNoDates)"
    "missingOrUnparseable exampleNode (hr_creationDate helperReminderNoDates)"
    "missingOrUnparseable exampleNode (hr_modificationDate helperReminderNoDates)"
    by code_simp+
  have n: "Date_now exampleNode = 1711000000000"
    by (simp add: exampleNode_def)
  show ?thesis
    using h n timestamps_normalize [of exampleNode helperReminderNoDates]
    by simp
qed

section \<open>Pagination\<close>

lemma take1_filter_find: "set (take 1 (filter P xs)) = set_option (find P xs)"
  by (induction xs) auto

lemma filteredReminders_matches:
  "filteredReminders store lname c = filter (matchesFilter store lname c) (reminders store)"
proof -
  have sel: "\<And>n r. (Some (calendar r) = calendarByName n (calendars store))
      = inListNamed store n r"
  proof -
    fix n r
    show "(Some (calendar r) = calendarByName n (calendars store)) = inListNamed store n r"
      unfolding inListNamed_def calendarByName_def take1_filter_find
      by (cases "find (\<lambda>c. calendarTitle c = n) (calendars store)") auto
  qed
  show ?thesis
    by (cases lname; cases c)
      (auto simp: filteredReminders_def filterCompleted_def matchesFilter_def sel
        intro!: filter_cong)
qed

lemma sort_key_mset_distinct:
  fixes k :: "'a \<Rightarrow> 'k::linorder"
  assumes m: "mset xs = mset ys" and d: "distinct (map k xs)"
  shows "sort_key k xs = sort_key k ys"
proof (rule map_sorted_distinct_set_unique [of k])
  from m have s: "set xs = set ys" by (rule mset_eq_setD)
  from d have i: "inj_on k (set xs)" and dx: "distinct xs" by (simp_all add: distinct_map)
  from m have "mset (map k xs) = mset (map k ys)" by (metis mset_map)
  with d have dk: "distinct (map k ys)" by (metis mset_eq_imp_distinct_iff)
  then have dy: "distinct ys" by (simp add: distinct_map)
  show "inj_on k (set (sort_key k xs) \<union> set (sort_key k ys))" using i s by simp
  show "sorted (map k (sort_key k xs))" by (rule sorted_sort_key)
  show "sorted (map k (sort_key k ys))" by (rule sorted_sort_key)
  show "distinct (map k (sort_key k xs))" using i dx by (simp add: distinct_map)
  show "distinct (map k (sort_key k ys))" using i s dy by (simp add: distinct_map)
  show "set (sort_key k xs) = set (sort_key k ys)" using s by simp
qed

lemma concat_pages:
  "concat (map (\<lambda>k. take L (drop (k * L) xs)) [0..<n]) = take (n * L) xs"
proof (induction n)
  case 0
  show ?case by simp
next
  case (Suc n)
  have "take (Suc n * L) xs = take (n * L + L) xs" by (simp add: add.commute)
  also have "\<dots> = take (n * L) xs @ take L (drop (n * L) xs)" by (rule take_add)
  finally show ?case using Suc by simp
qed

lemma length_sortedFiltered:
  "length (sortedFiltered N F store lname c)
     = length (filter (matchesFilter store lname c) (reminders store))"
  by (simp add: sortedFiltered_def)

lemma reminders_list_succeeds:
  "listSucceeds F store p \<Longrightarrow> reminders_list N F store p = Inr (listOutput N F store p)"
  by (auto simp: listSucceeds_def reminders_list_def getPaginatedReminders_def
      run_listReminders_def operationListReminders_unfold listOutput_def Let_def
      sortedFiltered_def take_map drop_map filteredReminders_matches sortReminders_sort_key
      split: sum.splits option.splits)

lemma reminders_list_Inr:
  "reminders_list N F store p = Inr out \<Longrightarrow> listSucceeds F store p"
  by (auto simp: listSucceeds_def reminders_list_def getPaginatedReminders_def
      run_listReminders_def operationListReminders_unfold Let_def
      split: sum.splits option.splits if_splits)

lemma listPage_eq:
  assumes ok: "listSucceeds F store p" and L: "1 \<le> p_limit p"
    and fit: "int k * p_limit p < 2 ^ 63"
  shows "listPage N F store p k
     = take (nat (p_limit p)) (drop (k * nat (p_limit p))
         (sortedFiltered N F store (p_listName p) (p_completed p)))"
proof -
  let ?p = "p\<lparr>p_offset := int k * p_limit p\<rparr>"
  from L have nn: "0 \<le> int k * p_limit p" by simp
  with fit have "fitsInt (int k * p_limit p)" by (simp add: fitsInt_def)
  with ok have "listSucceeds F store ?p" by (simp add: listSucceeds_def)
  then have "reminders_list N F store ?p = Inr (listOutput N F store ?p)"
    by (rule reminders_list_succeeds)
  moreover have "nat (int k * p_limit p) = k * nat (p_limit p)"
    using L by (simp add: nat_mult_distrib)
  ultimately show ?thesis
    using L nn by (simp add: listPage_def listOutput_def Let_def max_def)
qed

lemma concat_listPage:
  assumes ok: "listSucceeds F store p" and L: "1 \<le> p_limit p"
    and fit: "int n * p_limit p < 2 ^ 63"
  shows "concat (map (listPage N F store p) [0..<n])
     = take (n * nat (p_limit p)) (sortedFiltered N F store (p_listName p) (p_completed p))"
proof -
  have "map (listPage N F store p) [0..<n]
      = map (\<lambda>k. take (nat (p_limit p)) (drop (k * nat (p_limit p))
           (sortedFiltered N F store (p_listName p) (p_completed p)))) [0..<n]"
  proof (rule map_cong [OF refl])
    fix k assume "k \<in> set [0..<n]"
    then have "k \<le> n" by simp
    then have "int k * p_limit p \<le> int n * p_limit p"
      using L by (intro mult_right_mono) simp_all
    with fit have "int k * p_limit p < 2 ^ 63" by simp
    with ok L show "listPage N F store p k
        = take (nat (p_limit p)) (drop (k * nat (p_limit p))
           (sortedFiltered N F store (p_listName p) (p_completed p)))"
      by (rule listPage_eq)
  qed
  then show ?thesis by (simp only: concat_pages)
qed

lemma ListRemindersSchema_Some:
  "ListRemindersSchema i = Some p \<Longrightarrow>
     p_offset p = (case in_offset i of None \<Rightarrow> 0 | Some x \<Rightarrow> x) \<and> 0 \<le> p_offset p
     \<and> p_limit p = (case in_limit i of None \<Rightarrow> 50 | Some l \<Rightarrow> l)
     \<and> 1 \<le> p_limit p \<and> p_limit p \<le> 200
     \<and> p_listName p = in_listName i \<and> p_completed p = in_completed i"
  by (auto simp: ListRemindersSchema_def Let_def DEFAULT_LIMIT_def MAX_LIMIT_def
      split: if_splits option.splits)

lemma sortedFiltered_reordered:
  assumes c: "calendars store' = calendars store"
    and m: "mset (reminders store') = mset (reminders store)"
    and d: "distinct (map (canonicalKey F)
              (filter (matchesFilter store lname cmpl) (reminders store)))"
  shows "sortedFiltered N F store' lname cmpl = sortedFiltered N F store lname cmpl"
proof -
  have f: "matchesFilter store' lname cmpl = matchesFilter store lname cmpl"
    by (rule ext) (simp add: matchesFilter_def inListNamed_def c split: option.splits)
  have "mset (filter (matchesFilter store lname cmpl) (reminders store))
      = mset (filter (matchesFilter store lname cmpl) (reminders store'))"
    by (simp add: m)
  from sort_key_mset_distinct [OF this d]
  show ?thesis by (simp add: sortedFiltered_def f)
qed

lemma reminders_list_reordered:
  assumes ok: "reminders_list N F store p = Inr out"
    and c: "calendars store' = calendars store"
    and m: "mset (reminders store') = mset (reminders store)"
    and d: "distinct (map (canonicalKey F)
              (filter (matchesFilter store (p_listName p) (p_completed p)) (reminders store)))"
  shows "reminders_list N F store' p = Inr out"
proof -
  from ok have s: "listSucceeds F store p" by (rule reminders_list_Inr)
  with c have s': "listSucceeds F store' p" by (simp add: listSucceeds_def)
  from sortedFiltered_reordered [OF c m d, of N]
  have "listOutput N F store' p = listOutput N F store p"
    by (simp add: listOutput_def)
  with reminders_list_succeeds [OF s', of N] reminders_list_succeeds [OF s, of N] ok
  show ?thesis by simp
qed

text \<open>
  C2. For a listing request whose arguments pass the schema (offset from 0 with default 0,
  limit from 1 to 200 with default 50) and that succeeds: the reminders returned are the
  slice, starting at the offset and of at most limit elements, of the sequence of the
  reminders that match the filter, sorted by the canonical key, so pagination comes after
  filtering and sorting; the total is the number of reminders of the store that match the
  filter, whatever the page; \<open>hasMore\<close> is \<open>offset + limit < total\<close>; and the pages of
  size limit at the offsets 0, limit, 2 limit, ... joined in order are that sequence
  itself, each reminder once and in its place (the first \<open>n\<close> pages are its first
  \<open>n * limit\<close> elements, and all of it once \<open>n * limit\<close> reaches the total). The pages are
  requests against one store, which returns its reminders in one order; a request against
  the same reminders returned in another order has the same result when no two matching
  reminders have the same canonical key.
\<close>

theorem list_pagination:
  "ListRemindersSchema i = Some p \<and> reminders_list N F store p = Inr out \<longrightarrow>
     p_offset p = (case in_offset i of None \<Rightarrow> 0 | Some x \<Rightarrow> x) \<and> 0 \<le> p_offset p
   \<and> p_limit p = (case in_limit i of None \<Rightarrow> 50 | Some l \<Rightarrow> l)
   \<and> 1 \<le> p_limit p \<and> p_limit p \<le> 200
   \<and> out_reminders out
       = take (nat (p_limit p)) (drop (nat (p_offset p))
           (sortedFiltered N F store (p_listName p) (p_completed p)))
   \<and> out_total out
       = int (length (filter (matchesFilter store (p_listName p) (p_completed p))
                        (reminders store)))
   \<and> out_total out = int (length (sortedFiltered N F store (p_listName p) (p_completed p)))
   \<and> out_hasMore out = (p_offset p + p_limit p < out_total out)
   \<and> (int n * p_limit p < 2 ^ 63 \<longrightarrow>
        concat (map (listPage N F store p) [0..<n])
          = take (n * nat (p_limit p))
              (sortedFiltered N F store (p_listName p) (p_completed p)))
   \<and> (int n * p_limit p < 2 ^ 63 \<and> out_total out \<le> int n * p_limit p \<longrightarrow>
        concat (map (listPage N F store p) [0..<n])
          = sortedFiltered N F store (p_listName p) (p_completed p))
   \<and> (calendars store' = calendars store \<and> mset (reminders store') = mset (reminders store)
        \<and> distinct (map (canonicalKey F)
             (filter (matchesFilter store (p_listName p) (p_completed p)) (reminders store)))
        \<longrightarrow> reminders_list N F store' p = Inr out)"
proof
  assume h: "ListRemindersSchema i = Some p \<and> reminders_list N F store p = Inr out"
  note s = ListRemindersSchema_Some [OF conjunct1 [OF h]]
  from h have ok: "listSucceeds F store p" by (blast intro: reminders_list_Inr)
  from h reminders_list_succeeds [OF ok, of N] have out: "out = listOutput N F store p"
    by simp
  from s have L: "1 \<le> p_limit p" and O: "0 \<le> p_offset p" by simp_all
  have r: "out_reminders out
       = take (nat (p_limit p)) (drop (nat (p_offset p))
           (sortedFiltered N F store (p_listName p) (p_completed p)))"
    using L O by (simp add: out listOutput_def Let_def max_def)
  have t: "out_total out = int (length (sortedFiltered N F store (p_listName p) (p_completed p)))"
    by (simp add: out listOutput_def Let_def)
  have m: "out_hasMore out = (p_offset p + p_limit p < out_total out)"
    by (simp add: out listOutput_def Let_def)
  have c1: "int n * p_limit p < 2 ^ 63 \<longrightarrow>
        concat (map (listPage N F store p) [0..<n])
          = take (n * nat (p_limit p))
              (sortedFiltered N F store (p_listName p) (p_completed p))"
    using concat_listPage [OF ok L] by blast
  have c2: "int n * p_limit p < 2 ^ 63 \<and> out_total out \<le> int n * p_limit p \<longrightarrow>
        concat (map (listPage N F store p) [0..<n])
          = sortedFiltered N F store (p_listName p) (p_completed p)"
  proof
    assume a: "int n * p_limit p < 2 ^ 63 \<and> out_total out \<le> int n * p_limit p"
    have "int (n * nat (p_limit p)) = int n * p_limit p" using L by simp
    with a t have "length (sortedFiltered N F store (p_listName p) (p_completed p))
        \<le> n * nat (p_limit p)"
      by linarith
    with a c1 show "concat (map (listPage N F store p) [0..<n])
          = sortedFiltered N F store (p_listName p) (p_completed p)"
      by simp
  qed
  have c3: "calendars store' = calendars store \<and> mset (reminders store') = mset (reminders store)
        \<and> distinct (map (canonicalKey F)
             (filter (matchesFilter store (p_listName p) (p_completed p)) (reminders store)))
        \<longrightarrow> reminders_list N F store' p = Inr out"
    using reminders_list_reordered [OF conjunct2 [OF h]] by blast
  from s r t m c1 c2 c3
  show "p_offset p = (case in_offset i of None \<Rightarrow> 0 | Some x \<Rightarrow> x) \<and> 0 \<le> p_offset p
   \<and> p_limit p = (case in_limit i of None \<Rightarrow> 50 | Some l \<Rightarrow> l)
   \<and> 1 \<le> p_limit p \<and> p_limit p \<le> 200
   \<and> out_reminders out
       = take (nat (p_limit p)) (drop (nat (p_offset p))
           (sortedFiltered N F store (p_listName p) (p_completed p)))
   \<and> out_total out
       = int (length (filter (matchesFilter store (p_listName p) (p_completed p))
                        (reminders store)))
   \<and> out_total out = int (length (sortedFiltered N F store (p_listName p) (p_completed p)))
   \<and> out_hasMore out = (p_offset p + p_limit p < out_total out)
   \<and> (int n * p_limit p < 2 ^ 63 \<longrightarrow>
        concat (map (listPage N F store p) [0..<n])
          = take (n * nat (p_limit p))
              (sortedFiltered N F store (p_listName p) (p_completed p)))
   \<and> (int n * p_limit p < 2 ^ 63 \<and> out_total out \<le> int n * p_limit p \<longrightarrow>
        concat (map (listPage N F store p) [0..<n])
          = sortedFiltered N F store (p_listName p) (p_completed p))
   \<and> (calendars store' = calendars store \<and> mset (reminders store') = mset (reminders store)
        \<and> distinct (map (canonicalKey F)
             (filter (matchesFilter store (p_listName p) (p_completed p)) (reminders store)))
        \<longrightarrow> reminders_list N F store' p = Inr out)"
    by (simp add: length_sortedFiltered)
qed

theorem list_pagination_witness:
  "ListRemindersSchema filteredListInput = Some filteredListParams
   \<and> length (reminders exampleStore) = 3
   \<and> (\<exists>out. reminders_list exampleNode exampleFoundation exampleStore filteredListParams = Inr out
         \<and> out_total out = 2 \<and> out_hasMore out
         \<and> out_reminders out
             = take 1 (sortedFiltered exampleNode exampleFoundation exampleStore
                         (Some ''Work'') (Some False))
         \<and> reminders_list exampleNode exampleFoundation exampleStoreReordered filteredListParams
             = Inr out)
   \<and> concat (map (listPage exampleNode exampleFoundation exampleStore filteredListParams) [0..<2])
       = sortedFiltered exampleNode exampleFoundation exampleStore (Some ''Work'') (Some False)"
proof -
  have s: "ListRemindersSchema filteredListInput = Some filteredListParams"
    by code_simp
  have r: "reminders_list exampleNode exampleFoundation exampleStore filteredListParams
      = Inr (listOutput exampleNode exampleFoundation exampleStore filteredListParams)"
    by code_simp
  have f: "p_listName filteredListParams = Some ''Work''"
    "p_completed filteredListParams = Some False"
    "p_limit filteredListParams = 1" "p_offset filteredListParams = 0"
    by (simp_all add: filteredListParams_def)
  have l: "length (filter (matchesFilter exampleStore (Some ''Work'') (Some False))
             (reminders exampleStore)) = 2"
    by code_simp
  have l3: "length (reminders exampleStore) = 3"
    by code_simp
  have d: "distinct (map (canonicalKey exampleFoundation)
             (filter (matchesFilter exampleStore (Some ''Work'') (Some False))
                (reminders exampleStore)))"
    by code_simp
  have c: "calendars exampleStoreReordered = calendars exampleStore"
    by (simp add: exampleStoreReordered_def exampleStore_def)
  have m: "mset (reminders exampleStoreReordered) = mset (reminders exampleStore)"
    by (simp add: exampleStoreReordered_def exampleStore_def)
  from list_pagination
    [of filteredListInput filteredListParams exampleNode exampleFoundation exampleStore
        "listOutput exampleNode exampleFoundation exampleStore filteredListParams" 2
        exampleStoreReordered]
    s r f l d c m
  have "out_total (listOutput exampleNode exampleFoundation exampleStore filteredListParams) = 2"
    and "out_hasMore (listOutput exampleNode exampleFoundation exampleStore filteredListParams)"
    and "out_reminders (listOutput exampleNode exampleFoundation exampleStore filteredListParams)
          = take 1 (sortedFiltered exampleNode exampleFoundation exampleStore
                      (Some ''Work'') (Some False))"
    and "concat (map (listPage exampleNode exampleFoundation exampleStore filteredListParams) [0..<2])
       = sortedFiltered exampleNode exampleFoundation exampleStore (Some ''Work'') (Some False)"
    and "reminders_list exampleNode exampleFoundation exampleStoreReordered filteredListParams
          = Inr (listOutput exampleNode exampleFoundation exampleStore filteredListParams)"
    by simp_all
  with s r l3 show ?thesis by blast
qed

end
